theory Spec2Isabelle
  imports Complex_Main "HOL-Library.Monad_Syntax" "HOL-Library.Sublist"
begin

section \<open>Workout history view (web/js/history.js)\<close>

text \<open>
  The script fetches a list of workout summaries and writes one markup card per workout
  into the element \<open>workoutList\<close>. The embedding below follows the source line by line.
  Strings are the byte sequences of the UTF-8 source file, and an exception thrown by an
  expression is the value \<open>None\<close>. The built-in operations the script calls (property
  reads, ToString, ToNumber, \<open>Math.round\<close>, \<open>Date\<close>, \<open>toLocaleDateString\<close>) are written
  out as ECMAScript defines them on the values \<open>JSON.parse\<close> can produce; what is left to
  the implementation or the host (the digits of a number that is not a safe integer, the
  numeric reading of a string, date strings outside the date-only form, the local time
  zone) is a field of the record \<open>platform\<close>.
\<close>

subsection \<open>Values produced by \<open>response.json()\<close>\<close>

text \<open>
  A JavaScript Number is NaN, an infinity, or a finite value given by its exact rational
  value. \<open>JUndefined\<close> is never parsed from JSON; it is what reading an absent property
  yields. An object is the list of its own properties.
\<close>

datatype jsnum = NaN | PosInfinity | NegInfinity | Finite rat

datatype jsval =
    JUndefined
  | JNull
  | JBool bool
  | JNum jsnum
  | JStr string
  | JArr "jsval list"
  | JObj "(string \<times> jsval) list"

text \<open>The time value of a Date object: milliseconds since the epoch (UTC), or NaN.\<close>

datatype jsdate = InvalidDate | DateAt int

record platform =
  numberFormat :: "rat \<Rightarrow> string"
    \<comment> \<open>Number::toString on a finite value that is not a safe integer\<close>
  stringToNumber :: "string \<Rightarrow> jsnum"
    \<comment> \<open>StringToNumber, the numeric reading of a string\<close>
  dateParseOther :: "string \<Rightarrow> jsdate"
    \<comment> \<open>Date.parse on every string that is not a valid \<open>YYYY-MM-DD\<close> date\<close>
  localTZA :: "int \<Rightarrow> int"
    \<comment> \<open>offset of local time from UTC in milliseconds, at a given UTC time value\<close>
  earlyYearText :: "int \<Rightarrow> string"
    \<comment> \<open>how the year field of a date before year 1 is printed\<close>

subsection \<open>Text of numbers\<close>

definition nl :: string where
  "nl = [CHR 0x0A]"

definition bullet :: string where
  "bullet = [CHR 0xE2, CHR 0x80, CHR 0xA2]"

definition digitChar :: "nat \<Rightarrow> char" where
  "digitChar d = ''0123456789'' ! d"

fun decimal :: "nat \<Rightarrow> string" where
  "decimal n = (if n < 10 then [digitChar n] else decimal (n div 10) @ [digitChar (n mod 10)])"

declare decimal.simps [simp del]

definition intText :: "int \<Rightarrow> string" where
  "intText i = (if i < 0 then ''-'' @ decimal (nat (- i)) else decimal (nat i))"

definition isSafeInteger :: "rat \<Rightarrow> bool" where
  "isSafeInteger q = (of_int \<lfloor>q\<rfloor> = q \<and> \<bar>q\<bar> < 2 ^ 53)"

text \<open>
  \<open>`${n}`\<close> for a Number \<open>n\<close>. A safe integer prints as its decimal digits; the
  shortest round-trip digits of any other finite value are the platform's.
\<close>

definition numberToString :: "platform \<Rightarrow> jsnum \<Rightarrow> string" where
  "numberToString pf n =
     (case n of
        NaN \<Rightarrow> ''NaN''
      | PosInfinity \<Rightarrow> ''Infinity''
      | NegInfinity \<Rightarrow> ''-Infinity''
      | Finite q \<Rightarrow> if isSafeInteger q then intText \<lfloor>q\<rfloor> else numberFormat pf q)"

text \<open>\<open>Math.round\<close>: the nearest integer, a tie going towards plus infinity.\<close>

definition mathRound :: "jsnum \<Rightarrow> jsnum" where
  "mathRound n = (case n of Finite q \<Rightarrow> Finite (of_int \<lfloor>q + 1 / 2\<rfloor>) | _ \<Rightarrow> n)"

subsection \<open>Conversions and property reads\<close>

fun joinWith :: "string \<Rightarrow> string list \<Rightarrow> string" where
  "joinWith sep [] = []"
| "joinWith sep [x] = x"
| "joinWith sep (x # y # ys) = x @ sep @ joinWith sep (y # ys)"

definition isNullish :: "jsval \<Rightarrow> bool" where
  "isNullish v = (case v of JUndefined \<Rightarrow> True | JNull \<Rightarrow> True | _ \<Rightarrow> False)"

text \<open>
  ToString, as a template substitution \<open>${v}\<close> applies it. An array joins the texts of its
  elements with commas (null and undefined elements print as nothing). A plain object
  prints as \<open>[object Object]\<close>; when it has an own property \<open>toString\<close> (a JSON value, so
  not callable) the conversion finds no method to call and throws a TypeError.
\<close>

fun toStringJS :: "platform \<Rightarrow> jsval \<Rightarrow> string option" where
  "toStringJS pf JUndefined = Some ''undefined''"
| "toStringJS pf JNull = Some ''null''"
| "toStringJS pf (JBool b) = Some (if b then ''true'' else ''false'')"
| "toStringJS pf (JNum n) = Some (numberToString pf n)"
| "toStringJS pf (JStr s) = Some s"
| "toStringJS pf (JArr xs) =
     map_option (joinWith '','')
       (those (map (\<lambda>x. if isNullish x then Some [] else toStringJS pf x) xs))"
| "toStringJS pf (JObj kvs) =
     (if map_of kvs ''toString'' = None then Some ''[object Object]'' else None)"

text \<open>ToNumber, as \<open>Math.round\<close> applies it to its argument.\<close>

definition toNumberJS :: "platform \<Rightarrow> jsval \<Rightarrow> jsnum option" where
  "toNumberJS pf v =
     (case v of
        JUndefined \<Rightarrow> Some NaN
      | JNull \<Rightarrow> Some (Finite 0)
      | JBool b \<Rightarrow> Some (Finite (if b then 1 else 0))
      | JNum n \<Rightarrow> Some n
      | JStr s \<Rightarrow> Some (stringToNumber pf s)
      | _ \<Rightarrow> map_option (stringToNumber pf) (toStringJS pf v))"

text \<open>
  Reading a data property \<open>v.k\<close>, for the names \<open>workout_date\<close>, \<open>num_exercises\<close>,
  \<open>total_volume\<close>, \<open>exercises\<close>, \<open>name\<close>, \<open>num_sets\<close>, \<open>max_weight\<close> and \<open>total_reps\<close>,
  which no built-in prototype defines: it throws on null and undefined, reads an own
  property of an object, and is undefined on every other value.
\<close>

definition ownProp :: "(string \<times> jsval) list \<Rightarrow> string \<Rightarrow> jsval" where
  "ownProp kvs k = (case map_of kvs k of None \<Rightarrow> JUndefined | Some x \<Rightarrow> x)"

definition getProp :: "jsval \<Rightarrow> string \<Rightarrow> jsval option" where
  "getProp v k =
     (case v of
        JUndefined \<Rightarrow> None
      | JNull \<Rightarrow> None
      | JObj kvs \<Rightarrow> Some (ownProp kvs k)
      | _ \<Rightarrow> Some JUndefined)"

text \<open>
  \<open>v.map(f).join('')\<close>: only an array has a callable \<open>map\<close>; the callback runs on the
  elements in order, and an exception in any call leaves the whole expression.
\<close>

definition mapJoin :: "(jsval \<Rightarrow> string option) \<Rightarrow> jsval \<Rightarrow> string option" where
  "mapJoin f v =
     (case v of
        JArr xs \<Rightarrow> map_option concat (those (map f xs))
      | _ \<Rightarrow> None)"

text \<open>\<open>v.length === 0\<close>.\<close>

definition lengthIsZero :: "jsval \<Rightarrow> bool option" where
  "lengthIsZero v =
     (case v of
        JUndefined \<Rightarrow> None
      | JNull \<Rightarrow> None
      | JArr xs \<Rightarrow> Some (xs = [])
      | JStr s \<Rightarrow> Some (s = [])
      | JObj kvs \<Rightarrow> Some (map_of kvs ''length'' = Some (JNum (Finite 0)))
      | _ \<Rightarrow> Some False)"

subsection \<open>Dates\<close>

definition msPerDay :: int where
  "msPerDay = 86400000"

definition isLeapYear :: "int \<Rightarrow> bool" where
  "isLeapYear y = (if y mod 100 = 0 then y mod 400 = 0 else y mod 4 = 0)"

definition daysInMonth :: "int \<Rightarrow> int \<Rightarrow> int" where
  "daysInMonth y m =
     (if m = 2 then (if isLeapYear y then 29 else 28)
      else if m = 4 \<or> m = 6 \<or> m = 9 \<or> m = 11 then 30 else 31)"

text \<open>Day number (days since 1970-01-01) of a date of the proleptic Gregorian calendar.\<close>

definition daysFromCivil :: "int \<Rightarrow> int \<Rightarrow> int \<Rightarrow> int" where
  "daysFromCivil y0 m d =
     (let y = (if m \<le> 2 then y0 - 1 else y0);
          era = y div 400;
          yoe = y - era * 400;
          doy = (153 * (if m > 2 then m - 3 else m + 9) + 2) div 5 + d - 1;
          doe = yoe * 365 + yoe div 4 - yoe div 100 + doy
      in era * 146097 + doe - 719468)"

text \<open>Year, month and day of the month of a day number.\<close>

definition civilFromDays :: "int \<Rightarrow> int \<times> int \<times> int" where
  "civilFromDays z0 =
     (let z = z0 + 719468;
          era = z div 146097;
          doe = z - era * 146097;
          yoe = (doe - doe div 1460 + doe div 36524 - doe div 146096) div 365;
          doy = doe - (365 * yoe + yoe div 4 - yoe div 100);
          mp = (5 * doy + 2) div 153;
          d = doy - (153 * mp + 2) div 5 + 1;
          m = (if mp < 10 then mp + 3 else mp - 9);
          y = yoe + era * 400 + (if m \<le> 2 then 1 else 0)
      in (y, m, d))"

definition digitVal :: "char \<Rightarrow> int option" where
  "digitVal c =
     (let n = (of_char c :: nat)
      in if 48 \<le> n \<and> n \<le> 57 then Some (int n - 48) else None)"

text \<open>
  The date-only form \<open>YYYY-MM-DD\<close> of the date-time string format, with a month and a
  day that exist.
\<close>

fun parseIsoDate :: "string \<Rightarrow> (int \<times> int \<times> int) option" where
  "parseIsoDate [y1, y2, y3, y4, h1, m1, m2, h2, d1, d2] =
     (if h1 = CHR ''-'' \<and> h2 = CHR ''-'' then
        do {
          a \<leftarrow> digitVal y1; b \<leftarrow> digitVal y2; c \<leftarrow> digitVal y3; e \<leftarrow> digitVal y4;
          p \<leftarrow> digitVal m1; q \<leftarrow> digitVal m2;
          r \<leftarrow> digitVal d1; s \<leftarrow> digitVal d2;
          let y = 1000 * a + 100 * b + 10 * c + e;
          let m = 10 * p + q;
          let d = 10 * r + s;
          if 1 \<le> m \<and> m \<le> 12 \<and> 1 \<le> d \<and> d \<le> daysInMonth y m then Some (y, m, d) else None
        }
      else None)"
| "parseIsoDate _ = None"

text \<open>\<open>Date.parse\<close>: a date-only string is midnight UTC of that day.\<close>

definition dateParse :: "platform \<Rightarrow> string \<Rightarrow> jsdate" where
  "dateParse pf s =
     (case parseIsoDate s of
        Some (y, m, d) \<Rightarrow> DateAt (daysFromCivil y m d * msPerDay)
      | None \<Rightarrow> dateParseOther pf s)"

definition timeClip :: "jsnum \<Rightarrow> jsdate" where
  "timeClip n =
     (case n of
        Finite q \<Rightarrow>
          if \<bar>q\<bar> > 8640000000000000 then InvalidDate
          else DateAt (if q < 0 then \<lceil>q\<rceil> else \<lfloor>q\<rfloor>)
      | _ \<Rightarrow> InvalidDate)"

text \<open>\<open>new Date(v)\<close>: a string (or an object, through its text) is parsed, any other
  value is taken as a number of milliseconds.\<close>

definition newDate :: "platform \<Rightarrow> jsval \<Rightarrow> jsdate option" where
  "newDate pf v =
     (case v of
        JUndefined \<Rightarrow> Some InvalidDate
      | JNull \<Rightarrow> Some (DateAt 0)
      | JBool b \<Rightarrow> Some (DateAt (if b then 1 else 0))
      | JNum n \<Rightarrow> Some (timeClip n)
      | JStr s \<Rightarrow> Some (dateParse pf s)
      | _ \<Rightarrow> map_option (dateParse pf) (toStringJS pf v))"

definition weekdayShort :: "int \<Rightarrow> string" where
  "weekdayShort n = [''Sun'', ''Mon'', ''Tue'', ''Wed'', ''Thu'', ''Fri'', ''Sat''] ! nat n"

definition monthShort :: "int \<Rightarrow> string" where
  "monthShort m =
     [''Jan'', ''Feb'', ''Mar'', ''Apr'', ''May'', ''Jun'',
      ''Jul'', ''Aug'', ''Sep'', ''Oct'', ''Nov'', ''Dec''] ! nat (m - 1)"

text \<open>
  \<open>date.toLocaleDateString('en-US', {weekday: 'short', year: 'numeric', month: 'short',
  day: 'numeric'})\<close>: the fields of the date in local time; day 0 was a Thursday.
\<close>

definition toLocaleDateString :: "platform \<Rightarrow> jsdate \<Rightarrow> string" where
  "toLocaleDateString pf dt =
     (case dt of
        InvalidDate \<Rightarrow> ''Invalid Date''
      | DateAt t \<Rightarrow>
          let day = (t + localTZA pf t) div msPerDay;
              (y, m, d) = civilFromDays day
          in weekdayShort ((day + 4) mod 7) @ '', '' @ monthShort m @ '' '' @ intText d @ '', '' @
             (if 1 \<le> y then intText y else earlyYearText pf y))"

text \<open>\<open>formatDate\<close>, lines 69 to 77.\<close>

definition formatDate :: "platform \<Rightarrow> jsval \<Rightarrow> string option" where
  "formatDate pf dateString = map_option (toLocaleDateString pf) (newDate pf dateString)"

subsection \<open>Markup of one exercise and of one workout (lines 39 to 58)\<close>

definition tagOpen :: string where
  \<open>tagOpen =
     nl @ ''                        <div class="exercise-tag">'' @ nl @
     ''                            <strong>''\<close>

definition tagAfterName :: string where
  \<open>tagAfterName =
     ''</strong>'' @ nl @
     ''                            <span class="exercise-details">'' @ nl @
     ''                                ''\<close>

definition tagAfterSets :: string where
  \<open>tagAfterSets =
     '' sets '' @ bullet @ '' ''\<close>

definition tagAfterWeight :: string where
  \<open>tagAfterWeight =
     '' lbs max '' @ bullet @ '' ''\<close>

definition tagClose :: string where
  \<open>tagClose =
     '' total reps'' @ nl @
     ''                            </span>'' @ nl @
     ''                        </div>'' @ nl @
     ''                    ''\<close>

definition cardOpen :: string where
  \<open>cardOpen =
     nl @ ''            <div class="workout-card">'' @ nl @
     ''                <div class="workout-header">'' @ nl @
     ''                    <h3>''\<close>

definition cardAfterDate :: string where
  \<open>cardAfterDate =
     ''</h3>'' @ nl @
     ''                    <span class="workout-stats">'' @ nl @
     ''                        ''\<close>

definition cardAfterCount :: string where
  \<open>cardAfterCount =
     '' exercise(s) '' @ bullet @ '' ''\<close>

definition cardAfterVolume :: string where
  \<open>cardAfterVolume =
     '' lbs'' @ nl @
     ''                    </span>'' @ nl @
     ''                </div>'' @ nl @
     ''                <div class="workout-exercises">'' @ nl @
     ''                    ''\<close>

definition cardClose :: string where
  \<open>cardClose =
     nl @ ''                </div>'' @ nl @
     ''            </div>'' @ nl @
     ''        ''\<close>

text \<open>The callback of the inner \<open>map\<close>, lines 48 to 55.\<close>

definition renderExercise :: "platform \<Rightarrow> jsval \<Rightarrow> string option" where
  "renderExercise pf ex =
     do {
       v1 \<leftarrow> getProp ex ''name'';
       name \<leftarrow> toStringJS pf v1;
       v2 \<leftarrow> getProp ex ''num_sets'';
       sets \<leftarrow> toStringJS pf v2;
       v3 \<leftarrow> getProp ex ''max_weight'';
       weight \<leftarrow> toStringJS pf v3;
       v4 \<leftarrow> getProp ex ''total_reps'';
       reps \<leftarrow> toStringJS pf v4;
       Some (tagOpen @ name @ tagAfterName @ sets @ tagAfterSets @ weight @ tagAfterWeight @
             reps @ tagClose)
     }"

text \<open>The callback of the outer \<open>map\<close>, lines 39 to 58.\<close>

definition renderWorkout :: "platform \<Rightarrow> jsval \<Rightarrow> string option" where
  "renderWorkout pf workout =
     do {
       v1 \<leftarrow> getProp workout ''workout_date'';
       date \<leftarrow> formatDate pf v1;
       v2 \<leftarrow> getProp workout ''num_exercises'';
       count \<leftarrow> toStringJS pf v2;
       v3 \<leftarrow> getProp workout ''total_volume'';
       n \<leftarrow> toNumberJS pf v3;
       exercises \<leftarrow> getProp workout ''exercises'';
       tags \<leftarrow> mapJoin (renderExercise pf) exercises;
       Some (cardOpen @ date @ cardAfterDate @ count @ cardAfterCount @
             numberToString pf (mathRound n) @ cardAfterVolume @ tags @ cardClose)
     }"

subsection \<open>The page, the network and \<open>loadWorkouts\<close> (lines 13 to 66)\<close>

datatype fault = FetchFailed | JsonSyntaxError | TypeError

datatype effect =
    SetInnerHTML string
  | Fetch string
  | ConsoleLog string
  | ConsoleError fault

text \<open>
  The two elements the script looks up by id, each absent (\<open>None\<close>) or present with the
  value of the control and the markup of the list, and the effects so far, oldest first.
\<close>

record page =
  userFilter :: "string option"
  workoutList :: "string option"
  effects :: "effect list"

datatype json_body = NotJson | Json jsval

record response =
  status :: nat
  body :: json_body

datatype fetch_outcome = NeverSettles | Rejects | Resolves response

datatype completion = Pending | Fulfilled | RejectedWith fault

definition loadingHTML :: string where
  \<open>loadingHTML = ''<p>Loading workouts...</p>''\<close>

definition emptyHTML :: string where
  \<open>emptyHTML = ''<p>No workouts found. Start logging!</p>''\<close>

definition errorHTML :: string where
  \<open>errorHTML = ''<p class="error">Error loading workouts. Please try again.</p>''\<close>

definition baseUrl :: string where
  \<open>baseUrl = ''http://localhost:8000/workouts''\<close>

definition emit :: "effect \<Rightarrow> page \<Rightarrow> page" where
  "emit e pg = pg\<lparr>effects := effects pg @ [e]\<rparr>"

definition setInnerHTML :: "string \<Rightarrow> page \<Rightarrow> page" where
  "setInnerHTML html pg = emit (SetInnerHTML html) (pg\<lparr>workoutList := Some html\<rparr>)"

text \<open>Lines 23 to 26.\<close>

definition buildUrl :: "string \<Rightarrow> string" where
  "buildUrl filterValue =
     (if filterValue \<noteq> [] then baseUrl @ ''?user_id='' @ filterValue else baseUrl)"

text \<open>The text of line 60, which only an array reaches.\<close>

definition loadedText :: "jsval \<Rightarrow> string" where
  "loadedText workouts =
     (case workouts of
        JArr xs \<Rightarrow> ''Loaded '' @ decimal (length xs) @ '' workouts''
      | _ \<Rightarrow> ''Loaded undefined workouts'')"

text \<open>
  Lines 30 to 60, once \<open>fetch\<close> has resolved: \<open>Inl\<close> is the exception that leaves the
  \<open>try\<close> block, raised in every case before the block has written anything.
\<close>

definition afterFetch :: "platform \<Rightarrow> response \<Rightarrow> page \<Rightarrow> fault + page" where
  "afterFetch pf resp pg =
     (case body resp of
        NotJson \<Rightarrow> Inl JsonSyntaxError
      | Json workouts \<Rightarrow>
          (case lengthIsZero workouts of
             None \<Rightarrow> Inl TypeError
           | Some isEmpty \<Rightarrow>
               if isEmpty then Inr (setInnerHTML emptyHTML pg)
               else
                 (case mapJoin (renderWorkout pf) workouts of
                    None \<Rightarrow> Inl TypeError
                  | Some html \<Rightarrow>
                      Inr (emit (ConsoleLog (loadedText workouts)) (setInnerHTML html pg)))))"

text \<open>The \<open>catch\<close> block, lines 62 to 65.\<close>

definition catchBlock :: "fault \<Rightarrow> page \<Rightarrow> page" where
  "catchBlock e pg = setInnerHTML errorHTML (emit (ConsoleError e) pg)"

text \<open>
  \<open>loadWorkouts\<close>: the state of its promise and the page it leaves. Lines 15 and 19 read
  a property of, and write to, what \<open>getElementById\<close> returned, outside the \<open>try\<close> block.
\<close>

definition loadWorkouts ::
    "platform \<Rightarrow> (string \<Rightarrow> fetch_outcome) \<Rightarrow> page \<Rightarrow> completion \<times> page" where
  "loadWorkouts pf net pg =
     (case userFilter pg of
        None \<Rightarrow> (RejectedWith TypeError, pg)
      | Some filterValue \<Rightarrow>
          (case workoutList pg of
             None \<Rightarrow> (RejectedWith TypeError, pg)
           | Some _ \<Rightarrow>
               let pg1 = setInnerHTML loadingHTML pg;
                   url = buildUrl filterValue;
                   pg2 = emit (Fetch url) pg1
               in (case net url of
                     NeverSettles \<Rightarrow> (Pending, pg2)
                   | Rejects \<Rightarrow> (Fulfilled, catchBlock FetchFailed pg2)
                   | Resolves resp \<Rightarrow>
                       (case afterFetch pf resp pg2 of
                          Inl e \<Rightarrow> (Fulfilled, catchBlock e pg2)
                        | Inr pg3 \<Rightarrow> (Fulfilled, pg3)))))"

text \<open>The two listeners, lines 4 to 11: both run \<open>loadWorkouts\<close>.\<close>

datatype trigger = DOMContentLoaded | FilterChange

definition handleEvent ::
    "platform \<Rightarrow> (string \<Rightarrow> fetch_outcome) \<Rightarrow> trigger \<Rightarrow> page \<Rightarrow> completion \<times> page" where
  "handleEvent pf net ev pg = loadWorkouts pf net pg"

subsection \<open>The shape of the records the endpoint serves\<close>

definition isText :: "jsval \<Rightarrow> bool" where
  "isText v = (case v of JStr _ \<Rightarrow> True | _ \<Rightarrow> False)"

definition isNumeric :: "jsval \<Rightarrow> bool" where
  "isNumeric v = (case v of JNum (Finite _) \<Rightarrow> True | _ \<Rightarrow> False)"

definition isCount :: "jsval \<Rightarrow> bool" where
  "isCount v = (case v of JNum (Finite q) \<Rightarrow> of_int \<lfloor>q\<rfloor> = q \<and> 0 \<le> q | _ \<Rightarrow> False)"

definition isExerciseSummary :: "jsval \<Rightarrow> bool" where
  "isExerciseSummary v =
     (case v of
        JObj kvs \<Rightarrow>
          isText (ownProp kvs ''name'') \<and> isCount (ownProp kvs ''num_sets'') \<and>
          isNumeric (ownProp kvs ''max_weight'') \<and> isCount (ownProp kvs ''total_reps'')
      | _ \<Rightarrow> False)"

definition isWorkout :: "jsval \<Rightarrow> bool" where
  "isWorkout v =
     (case v of
        JObj kvs \<Rightarrow>
          isText (ownProp kvs ''workout_date'') \<and> isCount (ownProp kvs ''num_exercises'') \<and>
          isNumeric (ownProp kvs ''total_volume'') \<and>
          (case ownProp kvs ''exercises'' of
             JArr exs \<Rightarrow> list_all isExerciseSummary exs
           | _ \<Rightarrow> False)
      | _ \<Rightarrow> False)"

subsection \<open>Observations on a run\<close>

text \<open>
  The page a run leaves when both elements are present: the list shows \<open>html\<close>, and the
  run has added the loading placeholder, the request and \<open>rest\<close> to the effects.
\<close>

definition ended :: "page \<Rightarrow> string \<Rightarrow> string \<Rightarrow> effect list \<Rightarrow> page" where
  "ended pg v html rest =
     pg\<lparr>workoutList := Some html,
        effects := effects pg @ SetInnerHTML loadingHTML # Fetch (buildUrl v) # rest\<rparr>"

text \<open>The arguments of the calls of \<open>fetch\<close>, oldest first.\<close>

definition requests :: "page \<Rightarrow> string list" where
  "requests pg = concat (map (\<lambda>e. case e of Fetch u \<Rightarrow> [u] | _ \<Rightarrow> []) (effects pg))"

text \<open>Markup that is the cards of a non-empty list of values, in their order.\<close>

definition isCardMarkup :: "platform \<Rightarrow> string \<Rightarrow> bool" where
  "isCardMarkup pf html =
     (\<exists>ws cards. ws \<noteq> [] \<and> map (renderWorkout pf) ws = map Some cards \<and> html = concat cards)"





subsection \<open>A sample host and sample data\<close>

text \<open>
  A host in the UTC time zone. It prints a number that is not a safe integer by its
  decimal expansion (up to 17 fractional digits), reads a string of decimal digits as
  that number and any other string as NaN, and knows no date format but \<open>YYYY-MM-DD\<close>.
  \<open>hostWest\<close> is the same host five hours west of Greenwich.
\<close>

fun fractionDigits :: "nat \<Rightarrow> rat \<Rightarrow> string" where
  "fractionDigits 0 q = []"
| "fractionDigits (Suc n) q =
     (if q = 0 then []
      else digitChar (nat \<lfloor>10 * q\<rfloor>) # fractionDigits n (10 * q - of_int \<lfloor>10 * q\<rfloor>))"

definition decimalText :: "rat \<Rightarrow> string" where
  "decimalText q =
     (if q < 0 then ''-'' else []) @ decimal (nat \<lfloor>\<bar>q\<bar>\<rfloor>) @
     (if of_int \<lfloor>\<bar>q\<bar>\<rfloor> = \<bar>q\<bar> then []
      else ''.'' @ fractionDigits 17 (\<bar>q\<bar> - of_int \<lfloor>\<bar>q\<bar>\<rfloor>))"

definition readDigits :: "string \<Rightarrow> jsnum" where
  "readDigits s =
     (if list_all (\<lambda>c. digitVal c \<noteq> None) s
      then Finite (of_int (foldl (\<lambda>a c. 10 * a + (int (of_char c) - 48)) 0 s))
      else NaN)"

definition hostUTC :: platform where
  "hostUTC =
     \<lparr> numberFormat = decimalText,
       stringToNumber = readDigits,
       dateParseOther = (\<lambda>s. InvalidDate),
       localTZA = (\<lambda>t. 0),
       earlyYearText = (\<lambda>y. intText (1 - y)) \<rparr>"

definition hostWest :: platform where
  "hostWest = hostUTC\<lparr>localTZA := (\<lambda>t. - 18000000)\<rparr>"

definition squat :: jsval where
  "squat = JObj [(''name'', JStr ''Squat''), (''num_sets'', JNum (Finite 3)),
                 (''max_weight'', JNum (Finite 200)), (''total_reps'', JNum (Finite 15))]"

definition bench :: jsval where
  "bench = JObj [(''name'', JStr ''Bench''), (''num_sets'', JNum (Finite 3)),
                 (''max_weight'', JNum (Finite 150)), (''total_reps'', JNum (Finite 18))]"

definition sampleWorkout :: jsval where
  "sampleWorkout =
     JObj [(''workout_date'', JStr ''2024-01-10''), (''num_exercises'', JNum (Finite 2)),
           (''total_volume'', JNum (Finite 1000)), (''exercises'', JArr [squat, bench])]"

definition row :: jsval where
  "row = JObj [(''name'', JStr ''<b>Row</b>''), (''num_sets'', JNum (Finite 4)),
               (''max_weight'', JNum (Finite (301 / 2))), (''total_reps'', JNum (Finite 32))]"

definition rowingDay :: jsval where
  "rowingDay =
     JObj [(''workout_date'', JStr ''2024-03-15''), (''num_exercises'', JNum (Finite 1)),
           (''total_volume'', JNum (Finite (1228 / 5))), (''exercises'', JArr [row])]"




definition samplePage :: page where
  "samplePage = \<lparr> userFilter = Some [], workoutList = Some [], effects = [] \<rparr>"

text \<open>
  Three networks: one that answers every request with the same status and body, one on
  which no request ever settles, and one on which every request fails.
\<close>

definition serves :: "nat \<Rightarrow> json_body \<Rightarrow> string \<Rightarrow> fetch_outcome" where
  "serves code b url = Resolves \<lparr> status = code, body = b \<rparr>"

definition hangs :: "string \<Rightarrow> fetch_outcome" where
  "hangs url = NeverSettles"

definition offline :: "string \<Rightarrow> fetch_outcome" where
  "offline url = Rejects"

section \<open>Facts about the embedding\<close>

subsection \<open>Lists of optional results and contiguous sublists\<close>

lemma those_map_Some_iff: "those (map f xs) = Some ys \<longleftrightarrow> map f xs = map Some ys"
proof (induction xs arbitrary: ys)
  case Nil
  show ?case by auto
next
  case (Cons x xs)
  show ?case
  proof (cases "f x")
    case None
    then show ?thesis by (cases ys) auto
  next
    case (Some y)
    then show ?thesis using Cons.IH by (cases ys) (auto split: option.splits)
  qed
qed

lemma those_map_defined:
  assumes "list_all (\<lambda>x. f x \<noteq> None) xs"
  shows "\<exists>ys. those (map f xs) = Some ys"
  using assms by (induction xs) auto

lemma those_map_None:
  assumes "x \<in> set xs" "f x = None"
  shows "those (map f xs) = None"
  using assms by (induction xs) (auto split: option.splits)

lemma map_Some_member:
  assumes "map f xs = map Some ys" "x \<in> set xs"
  shows "\<exists>y \<in> set ys. f x = Some y"
proof -
  from assms(2) obtain i where i: "i < length xs" "xs ! i = x"
    by (auto simp: in_set_conv_nth)
  have l: "length ys = length xs"
    using assms(1) by (metis length_map)
  have "f (xs ! i) = Some (ys ! i)"
    using assms(1) i(1) l by (metis nth_map)
  with i l show ?thesis by auto
qed

lemma sublist_concat_member:
  assumes "x \<in> set xs"
  shows "sublist x (concat xs)"
proof -
  from assms obtain ys zs where "xs = ys @ x # zs"
    by (auto simp: in_set_conv_decomp)
  then have "concat xs = concat ys @ x @ concat zs"
    by simp
  then show ?thesis
    by (metis sublist_appendI)
qed

lemma sublist_trans: "sublist xs ys \<Longrightarrow> sublist ys zs \<Longrightarrow> sublist xs (zs :: 'a list)"
  by (rule sublist_order.order.trans)


subsection \<open>Numbers and dates\<close>

lemma mathRound_nearest: "\<bar>of_int \<lfloor>x + 1 / 2\<rfloor> - x\<bar> \<le> (1 / 2 :: rat)"
  by linarith

lemma numberToString_rounded:
  assumes "\<bar>x\<bar> < (2 :: rat) ^ 52"
  shows "numberToString pf (Finite (of_int \<lfloor>x + 1 / 2\<rfloor>)) = intText \<lfloor>x + 1 / 2\<rfloor>"
proof -
  have "\<bar>of_int \<lfloor>x + 1 / 2\<rfloor> :: rat\<bar> \<le> \<bar>x\<bar> + 1 / 2"
    by linarith
  also have "\<dots> < 2 ^ 52 + 1 / 2"
    using assms by simp
  also have "\<dots> < (2 :: rat) ^ 53"
    by simp
  finally show ?thesis
    by (simp add: numberToString_def isSafeInteger_def)
qed

lemma decimal_numeral:
  "decimal (numeral k) =
     (if (numeral k :: nat) < 10 then [digitChar (numeral k)]
      else decimal (numeral k div 10) @ [digitChar (numeral k mod 10)])"
  by (rule decimal.simps)

lemma decimal_digit: "n < 10 \<Longrightarrow> decimal n = [digitChar n]"
  by (simp add: decimal.simps)

lemma rounds_to_246:
  assumes "491 / 2 \<le> x" "x < (493 / 2 :: rat)"
  shows "\<lfloor>x + 1 / 2\<rfloor> = 246"
  using assms by linarith

lemma intText_246: "intText 246 = ''246''"
  by (simp add: intText_def decimal_numeral digitChar_def)

lemma formatDate_JStr: "formatDate pf (JStr s) = Some (toLocaleDateString pf (dateParse pf s))"
  by (simp add: formatDate_def newDate_def)

lemma dateParse_2024_03_15: "dateParse pf ''2024-03-15'' = DateAt 1710460800000"
  by (simp add: dateParse_def digitVal_def daysInMonth_def isLeapYear_def daysFromCivil_def
      msPerDay_def)

lemma civilFromDays_19797: "civilFromDays 19797 = (2024, 3, 15)"
  by code_simp

lemma civilFromDays_19796: "civilFromDays 19796 = (2024, 3, 14)"
  by code_simp


text \<open>
  The date-only string \<open>2024-03-15\<close> is midnight UTC of that Friday. A host whose local
  time is at or ahead of UTC prints that day; a host behind UTC prints the day before.
\<close>

lemma formatDate_2024_03_15_east:
  assumes "0 \<le> localTZA pf 1710460800000" and "localTZA pf 1710460800000 < 86400000"
  shows "formatDate pf (JStr ''2024-03-15'') = Some ''Fri, Mar 15, 2024''"
proof -
  have "(1710460800000 + localTZA pf 1710460800000) div msPerDay = 19797"
    using assms unfolding msPerDay_def by linarith
  then show ?thesis
    by (simp add: formatDate_def newDate_def dateParse_2024_03_15 toLocaleDateString_def
        civilFromDays_19797 weekdayShort_def monthShort_def intText_def decimal_numeral
        decimal_digit digitChar_def)
qed

lemma formatDate_2024_03_15_west:
  assumes "- 86400000 \<le> localTZA pf 1710460800000" and "localTZA pf 1710460800000 < 0"
  shows "formatDate pf (JStr ''2024-03-15'') = Some ''Thu, Mar 14, 2024''"
proof -
  have "(1710460800000 + localTZA pf 1710460800000) div msPerDay = 19796"
    using assms unfolding msPerDay_def by linarith
  then show ?thesis
    by (simp add: formatDate_def newDate_def dateParse_2024_03_15 toLocaleDateString_def
        civilFromDays_19796 weekdayShort_def monthShort_def intText_def decimal_numeral
        decimal_digit digitChar_def)
qed

lemma formatDate_at_greenwich:
  "formatDate hostUTC (JStr ''2024-03-15'') = Some ''Fri, Mar 15, 2024''"
  by code_simp

lemma formatDate_epoch: "formatDate hostUTC (JStr ''1970-01-01'') = Some ''Thu, Jan 1, 1970''"
  by code_simp

lemma formatDate_leap_day: "formatDate hostUTC (JStr ''2000-02-29'') = Some ''Tue, Feb 29, 2000''"
  by code_simp


subsection \<open>Rendering records of the expected shape\<close>

lemma getProp_JObj: "getProp (JObj kvs) k = Some (ownProp kvs k)"
  by (simp add: getProp_def)

lemma isText_iff: "isText v \<longleftrightarrow> (\<exists>s. v = JStr s)"
  by (cases v) (simp_all add: isText_def)

lemma isNumeric_iff: "isNumeric v \<longleftrightarrow> (\<exists>q. v = JNum (Finite q))"
proof (cases v)
  case (JNum n)
  then show ?thesis by (cases n) (simp_all add: isNumeric_def)
qed (simp_all add: isNumeric_def)

lemma isCount_imp_isNumeric: "isCount v \<Longrightarrow> isNumeric v"
proof (cases v)
  case (JNum n)
  assume "isCount v"
  with JNum show ?thesis by (cases n) (simp_all add: isNumeric_def isCount_def)
qed (simp_all add: isCount_def)

lemma renderExercise_summary:
  assumes "isExerciseSummary ex"
  shows "\<exists>kvs name sets weight reps.
           ex = JObj kvs \<and> ownProp kvs ''name'' = JStr name \<and>
           ownProp kvs ''num_sets'' = JNum sets \<and> ownProp kvs ''max_weight'' = JNum weight \<and>
           ownProp kvs ''total_reps'' = JNum reps \<and>
           renderExercise pf ex =
             Some (tagOpen @ name @ tagAfterName @ numberToString pf sets @ tagAfterSets @
                   numberToString pf weight @ tagAfterWeight @ numberToString pf reps @ tagClose)"
proof -
  from assms obtain kvs where ex: "ex = JObj kvs"
    by (cases ex) (simp_all add: isExerciseSummary_def)
  from assms ex have t: "isText (ownProp kvs ''name'')"
    and n: "isNumeric (ownProp kvs ''num_sets'')" "isNumeric (ownProp kvs ''max_weight'')"
           "isNumeric (ownProp kvs ''total_reps'')"
    by (simp_all add: isExerciseSummary_def isCount_imp_isNumeric)
  from t obtain name where 1: "ownProp kvs ''name'' = JStr name"
    by (auto simp: isText_iff)
  from n obtain a b c where 2: "ownProp kvs ''num_sets'' = JNum (Finite a)"
    "ownProp kvs ''max_weight'' = JNum (Finite b)" "ownProp kvs ''total_reps'' = JNum (Finite c)"
    by (auto simp: isNumeric_iff)
  show ?thesis
    using ex 1 2 by (simp add: renderExercise_def getProp_JObj)
qed

lemma mapJoin_JArr: "mapJoin f (JArr xs) = map_option concat (those (map f xs))"
  by (simp add: mapJoin_def)

lemma renderWorkout_workout:
  assumes "isWorkout w"
  shows "\<exists>kvs date count volume exs tags.
           w = JObj kvs \<and> ownProp kvs ''workout_date'' = JStr date \<and>
           ownProp kvs ''num_exercises'' = JNum count \<and>
           ownProp kvs ''total_volume'' = JNum volume \<and>
           ownProp kvs ''exercises'' = JArr exs \<and>
           map (renderExercise pf) exs = map Some tags \<and>
           renderWorkout pf w =
             Some (cardOpen @ toLocaleDateString pf (dateParse pf date) @ cardAfterDate @
                   numberToString pf count @ cardAfterCount @
                   numberToString pf (mathRound volume) @ cardAfterVolume @
                   concat tags @ cardClose)"
proof -
  from assms obtain kvs where w: "w = JObj kvs"
    by (cases w) (simp_all add: isWorkout_def)
  from assms w have t: "isText (ownProp kvs ''workout_date'')"
    and n: "isNumeric (ownProp kvs ''num_exercises'')" "isNumeric (ownProp kvs ''total_volume'')"
    by (simp_all add: isWorkout_def isCount_imp_isNumeric)
  from assms w obtain exs where e: "ownProp kvs ''exercises'' = JArr exs"
    and all: "list_all isExerciseSummary exs"
    by (auto simp: isWorkout_def split: jsval.splits)
  from t obtain date where 1: "ownProp kvs ''workout_date'' = JStr date"
    by (auto simp: isText_iff)
  from n obtain a b where 2: "ownProp kvs ''num_exercises'' = JNum (Finite a)"
    "ownProp kvs ''total_volume'' = JNum (Finite b)"
    by (auto simp: isNumeric_iff)
  have "list_all (\<lambda>x. renderExercise pf x \<noteq> None) exs"
    using all renderExercise_summary [of _ pf] by (auto simp: list_all_iff)
  then obtain tags where 3: "those (map (renderExercise pf) exs) = Some tags"
    using those_map_defined by blast
  then have 4: "map (renderExercise pf) exs = map Some tags"
    by (simp add: those_map_Some_iff)
  show ?thesis
    using w 1 2 e 3 4
    by (simp add: renderWorkout_def getProp_JObj formatDate_JStr toNumberJS_def mapJoin_JArr)
qed

lemma renderAll_workouts:
  assumes "list_all isWorkout ws"
  shows "\<exists>cards. map (renderWorkout pf) ws = map Some cards \<and>
           mapJoin (renderWorkout pf) (JArr ws) = Some (concat cards)"
proof -
  have "list_all (\<lambda>w. renderWorkout pf w \<noteq> None) ws"
    using assms renderWorkout_workout [of _ pf] by (auto simp: list_all_iff)
  then obtain cards where "those (map (renderWorkout pf) ws) = Some cards"
    using those_map_defined by blast
  then show ?thesis
    by (auto simp: mapJoin_JArr those_map_Some_iff)
qed

lemma workout_card_parts:
  assumes "isWorkout w" and "getProp w ''exercises'' = Some (JArr exs)" and "ex \<in> set exs"
  shows "\<exists>markup name sets weight reps count.
           renderWorkout pf w = Some markup \<and>
           getProp ex ''name'' = Some (JStr name) \<and>
           getProp ex ''num_sets'' = Some (JNum sets) \<and>
           getProp ex ''max_weight'' = Some (JNum weight) \<and>
           getProp ex ''total_reps'' = Some (JNum reps) \<and>
           getProp w ''num_exercises'' = Some (JNum count) \<and>
           sublist (tagOpen @ name @ tagAfterName @ numberToString pf sets @ tagAfterSets @
                    numberToString pf weight @ tagAfterWeight @ numberToString pf reps @
                    tagClose) markup \<and>
           sublist (cardAfterDate @ numberToString pf count @ cardAfterCount) markup"
proof -
  from renderWorkout_workout [OF assms(1), of pf]
  obtain kvs date count volume exs' tags where w: "w = JObj kvs"
    and c: "ownProp kvs ''num_exercises'' = JNum count"
    and e: "ownProp kvs ''exercises'' = JArr exs'"
    and t: "map (renderExercise pf) exs' = map Some tags"
    and r: "renderWorkout pf w =
              Some (cardOpen @ toLocaleDateString pf (dateParse pf date) @ cardAfterDate @
                    numberToString pf count @ cardAfterCount @
                    numberToString pf (mathRound volume) @ cardAfterVolume @
                    concat tags @ cardClose)"
    by blast
  have exs: "exs' = exs"
    using assms(2) w e by (simp add: getProp_JObj)
  have "isExerciseSummary ex"
    using assms(1,3) w e exs by (simp add: isWorkout_def list_all_iff)
  from renderExercise_summary [OF this, of pf]
  obtain ekvs name sets weight reps where ex: "ex = JObj ekvs"
    and f: "ownProp ekvs ''name'' = JStr name" "ownProp ekvs ''num_sets'' = JNum sets"
      "ownProp ekvs ''max_weight'' = JNum weight" "ownProp ekvs ''total_reps'' = JNum reps"
    and tag: "renderExercise pf ex =
                Some (tagOpen @ name @ tagAfterName @ numberToString pf sets @ tagAfterSets @
                      numberToString pf weight @ tagAfterWeight @ numberToString pf reps @
                      tagClose)"
    by blast
  define tg where
    "tg = tagOpen @ name @ tagAfterName @ numberToString pf sets @ tagAfterSets @
          numberToString pf weight @ tagAfterWeight @ numberToString pf reps @ tagClose"
  from map_Some_member [OF t [unfolded exs] assms(3)] tag
  have "tg \<in> set tags"
    by (auto simp: tg_def)
  then have "sublist tg (concat tags)"
    by (rule sublist_concat_member)
  moreover have "sublist (concat tags)
      (cardOpen @ toLocaleDateString pf (dateParse pf date) @ cardAfterDate @
       numberToString pf count @ cardAfterCount @
       numberToString pf (mathRound volume) @ cardAfterVolume @ concat tags @ cardClose)"
    (is "sublist _ ?markup")
  proof -
    have "?markup = (cardOpen @ toLocaleDateString pf (dateParse pf date) @ cardAfterDate @
       numberToString pf count @ cardAfterCount @
       numberToString pf (mathRound volume) @ cardAfterVolume) @ concat tags @ cardClose"
      by simp
    then show ?thesis
      by (metis sublist_appendI)
  qed
  ultimately have 1: "sublist tg ?markup"
    by (rule sublist_trans)
  have 2: "sublist (cardAfterDate @ numberToString pf count @ cardAfterCount) ?markup"
  proof -
    have "?markup = (cardOpen @ toLocaleDateString pf (dateParse pf date)) @
        (cardAfterDate @ numberToString pf count @ cardAfterCount) @
        (numberToString pf (mathRound volume) @ cardAfterVolume @ concat tags @ cardClose)"
      by simp
    then show ?thesis
      by (metis sublist_appendI)
  qed
  show ?thesis
    using r 1 2 w c ex f unfolding tg_def by (simp add: getProp_JObj)
qed

lemma renderWorkout_JNull: "renderWorkout pf JNull = None"
  by (simp add: renderWorkout_def getProp_def)


text \<open>
  The scenario of the specification: one card headed by the date, the stats line
  \<open>2 exercise(s)\<close>, \<open>1000 lbs\<close>, and the two exercise tags.
\<close>

lemma renderWorkout_sampleWorkout:
  "renderWorkout hostUTC sampleWorkout =
     Some (cardOpen @ ''Wed, Jan 10, 2024'' @ cardAfterDate @ ''2'' @ cardAfterCount @ ''1000'' @
           cardAfterVolume @
           (tagOpen @ ''Squat'' @ tagAfterName @ ''3'' @ tagAfterSets @ ''200'' @ tagAfterWeight @
            ''15'' @ tagClose) @
           (tagOpen @ ''Bench'' @ tagAfterName @ ''3'' @ tagAfterSets @ ''150'' @ tagAfterWeight @
            ''18'' @ tagClose) @
           cardClose)"
  by code_simp


text \<open>Every card starts with the line feed that opens the template literal.\<close>

lemma renderWorkout_starts:
  assumes "renderWorkout pf w = Some markup"
  shows "\<exists>t. markup = CHR 0x0A # t"
  using assms
  by (auto simp: renderWorkout_def cardOpen_def nl_def split: Option.bind_splits)

lemma isCardMarkup_starts:
  assumes "isCardMarkup pf html"
  shows "\<exists>t. html = CHR 0x0A # t"
proof -
  from assms obtain ws cards where "ws \<noteq> []"
    and m: "map (renderWorkout pf) ws = map Some cards" and h: "html = concat cards"
    by (auto simp: isCardMarkup_def)
  then obtain w ws' where "ws = w # ws'"
    by (cases ws) auto
  with m obtain c cs where "cards = c # cs" "renderWorkout pf w = Some c"
    by (cases cards) auto
  with h renderWorkout_starts show ?thesis
    by fastforce
qed

lemma messages_not_cards:
  "\<not> isCardMarkup pf loadingHTML" "\<not> isCardMarkup pf emptyHTML" "\<not> isCardMarkup pf errorHTML"
  using isCardMarkup_starts [of pf]
  by (auto simp: loadingHTML_def emptyHTML_def errorHTML_def)

lemma messages_distinct:
  "emptyHTML \<noteq> errorHTML" "loadingHTML \<noteq> emptyHTML" "loadingHTML \<noteq> errorHTML"
  by (simp_all add: loadingHTML_def emptyHTML_def errorHTML_def)

lemma mapJoin_Some_cards:
  assumes "lengthIsZero workouts = Some False"
      and "mapJoin (renderWorkout pf) workouts = Some html"
  shows "isCardMarkup pf html"
proof -
  from assms(2) obtain ws where w: "workouts = JArr ws"
    by (cases workouts) (simp_all add: mapJoin_def)
  with assms(1) have "ws \<noteq> []"
    by (simp add: lengthIsZero_def)
  moreover from assms(2) w obtain cards where "those (map (renderWorkout pf) ws) = Some cards"
    and "html = concat cards"
    by (auto simp: mapJoin_JArr)
  ultimately show ?thesis
    by (auto simp: isCardMarkup_def those_map_Some_iff)
qed


subsection \<open>The runs of \<open>loadWorkouts\<close>\<close>

lemma serves_resolves: "serves code b url = Resolves \<lparr>status = code, body = b\<rparr>"
  by (simp add: serves_def)

lemma workoutList_ended: "workoutList (ended pg v html rest) = Some html"
  by (simp add: ended_def)

lemma effects_ended:
  "effects (ended pg v html rest) =
     effects pg @ SetInnerHTML loadingHTML # Fetch (buildUrl v) # rest"
  by (simp add: ended_def)

lemma requests_ended:
  assumes "\<forall>e \<in> set rest. \<forall>u. e \<noteq> Fetch u"
  shows "requests (ended pg v html rest) = requests pg @ [buildUrl v]"
proof -
  have "concat (map (\<lambda>e. case e of Fetch u \<Rightarrow> [u] | _ \<Rightarrow> []) rest) = []"
    using assms by (induction rest) (auto split: effect.splits)
  then show ?thesis
    by (simp add: requests_def effects_ended)
qed

lemma loadWorkouts_missing:
  assumes "userFilter pg = None \<or> workoutList pg = None"
  shows "loadWorkouts pf net pg = (RejectedWith TypeError, pg)"
  using assms by (auto simp: loadWorkouts_def split: option.splits)

lemma loadWorkouts_never:
  assumes "userFilter pg = Some v" "workoutList pg = Some old"
      and "net (buildUrl v) = NeverSettles"
  shows "loadWorkouts pf net pg = (Pending, ended pg v loadingHTML [])"
  using assms by (simp add: loadWorkouts_def ended_def emit_def setInnerHTML_def)

lemma loadWorkouts_rejects:
  assumes "userFilter pg = Some v" "workoutList pg = Some old"
      and "net (buildUrl v) = Rejects"
  shows "loadWorkouts pf net pg =
           (Fulfilled, ended pg v errorHTML [ConsoleError FetchFailed, SetInnerHTML errorHTML])"
  using assms
  by (simp add: loadWorkouts_def ended_def emit_def setInnerHTML_def catchBlock_def)

lemma loadWorkouts_fault:
  assumes "userFilter pg = Some v" "workoutList pg = Some old"
      and "net (buildUrl v) = Resolves resp"
      and "afterFetch pf resp (emit (Fetch (buildUrl v)) (setInnerHTML loadingHTML pg)) = Inl e"
  shows "loadWorkouts pf net pg =
           (Fulfilled, ended pg v errorHTML [ConsoleError e, SetInnerHTML errorHTML])"
  using assms
  by (simp add: loadWorkouts_def ended_def emit_def setInnerHTML_def catchBlock_def)

lemma loadWorkouts_not_json:
  assumes "userFilter pg = Some v" "workoutList pg = Some old"
      and "net (buildUrl v) = Resolves resp" "body resp = NotJson"
  shows "loadWorkouts pf net pg =
           (Fulfilled, ended pg v errorHTML [ConsoleError JsonSyntaxError, SetInnerHTML errorHTML])"
  using assms(4) by (intro loadWorkouts_fault [where net = net, OF assms(1-3)]) (simp add: afterFetch_def)

lemma loadWorkouts_type_error:
  assumes "userFilter pg = Some v" "workoutList pg = Some old"
      and "net (buildUrl v) = Resolves resp" "body resp = Json workouts"
      and "lengthIsZero workouts = None \<or>
           lengthIsZero workouts = Some False \<and> mapJoin (renderWorkout pf) workouts = None"
  shows "loadWorkouts pf net pg =
           (Fulfilled, ended pg v errorHTML [ConsoleError TypeError, SetInnerHTML errorHTML])"
  using assms(4,5) by (intro loadWorkouts_fault [where net = net, OF assms(1-3)]) (auto simp: afterFetch_def)

lemma loadWorkouts_empty:
  assumes "userFilter pg = Some v" "workoutList pg = Some old"
      and "net (buildUrl v) = Resolves resp" "body resp = Json workouts"
      and "lengthIsZero workouts = Some True"
  shows "loadWorkouts pf net pg = (Fulfilled, ended pg v emptyHTML [SetInnerHTML emptyHTML])"
  using assms
  by (simp add: loadWorkouts_def afterFetch_def ended_def emit_def setInnerHTML_def)

lemma loadWorkouts_populated:
  assumes "userFilter pg = Some v" "workoutList pg = Some old"
      and "net (buildUrl v) = Resolves resp" "body resp = Json workouts"
      and "lengthIsZero workouts = Some False"
      and "mapJoin (renderWorkout pf) workouts = Some html"
  shows "loadWorkouts pf net pg =
           (Fulfilled, ended pg v html [SetInnerHTML html, ConsoleLog (loadedText workouts)])"
  using assms
  by (simp add: loadWorkouts_def afterFetch_def ended_def emit_def setInnerHTML_def)


text \<open>The ways a run with both elements present can go.\<close>

lemma loadWorkouts_outcomes:
  assumes "userFilter pg = Some v" and "workoutList pg = Some old"
  shows "net (buildUrl v) = NeverSettles \<and>
           loadWorkouts pf net pg = (Pending, ended pg v loadingHTML []) \<or>
         net (buildUrl v) \<noteq> NeverSettles \<and>
           ((\<exists>e. loadWorkouts pf net pg =
                 (Fulfilled, ended pg v errorHTML [ConsoleError e, SetInnerHTML errorHTML])) \<or>
            loadWorkouts pf net pg = (Fulfilled, ended pg v emptyHTML [SetInnerHTML emptyHTML]) \<or>
            (\<exists>html txt. isCardMarkup pf html \<and>
               loadWorkouts pf net pg =
                 (Fulfilled, ended pg v html [SetInnerHTML html, ConsoleLog txt])))"
proof (cases "net (buildUrl v)")
  case NeverSettles
  then show ?thesis
    by (simp add: loadWorkouts_never [where net = net, OF assms])
next
  case Rejects
  from loadWorkouts_rejects [where net = net, OF assms this] show ?thesis
    using Rejects by auto
next
  case (Resolves resp)
  note run = assms Resolves
  show ?thesis
  proof (cases "afterFetch pf resp (emit (Fetch (buildUrl v)) (setInnerHTML loadingHTML pg))")
    case (Inl e)
    from loadWorkouts_fault [where net = net, OF run this] show ?thesis
      using Resolves by auto
  next
    case (Inr pg3)
    then obtain workouts where b: "body resp = Json workouts"
      by (auto simp: afterFetch_def split: json_body.splits)
    from Inr b obtain isEmpty where z: "lengthIsZero workouts = Some isEmpty"
      by (auto simp: afterFetch_def split: option.splits)
    show ?thesis
    proof (cases isEmpty)
      case True
      with z show ?thesis
        using Resolves by (simp add: loadWorkouts_empty [where net = net, OF run b])
    next
      case False
      with Inr b z obtain html where j: "mapJoin (renderWorkout pf) workouts = Some html"
        by (auto simp: afterFetch_def split: option.splits)
      from z False have z': "lengthIsZero workouts = Some False"
        by simp
      from mapJoin_Some_cards [OF z' j] loadWorkouts_populated [where net = net, OF run b z' j]
      show ?thesis
        using Resolves by auto
    qed
  qed
qed

lemma loadWorkouts_prior_state:
  assumes "userFilter pg = Some v" and "workoutList pg = Some old"
      and "userFilter pg' = Some v" and "workoutList pg' = Some old'"
  shows "fst (loadWorkouts pf net pg') = fst (loadWorkouts pf net pg) \<and>
         workoutList (snd (loadWorkouts pf net pg')) = workoutList (snd (loadWorkouts pf net pg))"
  using assms
  by (simp add: loadWorkouts_def Let_def afterFetch_def catchBlock_def setInnerHTML_def emit_def
      split: fetch_outcome.splits json_body.splits option.splits)

lemma loadWorkouts_body_only:
  assumes "net (buildUrl v) = Resolves resp" and "net' (buildUrl v) = Resolves resp'"
      and "body resp' = body resp" and "userFilter pg = Some v"
  shows "loadWorkouts pf net' pg = loadWorkouts pf net pg"
  using assms by (simp add: loadWorkouts_def Let_def afterFetch_def split: option.splits)

lemma loadWorkouts_array:
  assumes "userFilter pg = Some v" and "workoutList pg = Some old"
      and "net (buildUrl v) = Resolves resp" and "body resp = Json (JArr ws)"
  shows "fst (loadWorkouts pf net pg) = Fulfilled \<and>
         workoutList (snd (loadWorkouts pf net pg)) =
           Some (if ws = [] then emptyHTML
                 else case those (map (renderWorkout pf) ws) of
                        Some cards \<Rightarrow> concat cards
                      | None \<Rightarrow> errorHTML)"
proof (cases "ws = []")
  case True
  then have "lengthIsZero (JArr ws) = Some True"
    by (simp add: lengthIsZero_def)
  from loadWorkouts_empty [where net = net, OF assms this] True show ?thesis
    by (simp add: workoutList_ended)
next
  case False
  then have z: "lengthIsZero (JArr ws) = Some False"
    by (simp add: lengthIsZero_def)
  show ?thesis
  proof (cases "those (map (renderWorkout pf) ws)")
    case None
    then have "lengthIsZero (JArr ws) = None \<or>
        lengthIsZero (JArr ws) = Some False \<and> mapJoin (renderWorkout pf) (JArr ws) = None"
      using z by (simp add: mapJoin_JArr)
    from loadWorkouts_type_error [where net = net, OF assms this] None False show ?thesis
      by (simp add: workoutList_ended)
  next
    case (Some cards)
    then have "mapJoin (renderWorkout pf) (JArr ws) = Some (concat cards)"
      by (simp add: mapJoin_JArr)
    from loadWorkouts_populated [where net = net, OF assms z this] Some False show ?thesis
      by (simp add: workoutList_ended)
  qed
qed

subsection \<open>The text of a card, and the cards in a text\<close>












lemma workoutList_catch:
  \<open>workoutList (ended pg v errorHTML rest) =
     Some ''<p class="error">Error loading workouts. Please try again.</p>''\<close>
  by (simp add: ended_def errorHTML_def)

section \<open>The claims of the specification\<close>




text \<open>
  C2, as stated, fails where the element \<open>workoutList\<close> is missing: line 19 writes to
  \<open>null\<close> before the \<open>try\<close> block is entered, so the TypeError leaves \<open>loadWorkouts\<close>
  (its promise is rejected) and nothing is displayed or logged.
\<close>

theorem loadWorkouts_missing_list_propagates:
  "loadWorkouts hostUTC offline (samplePage\<lparr>workoutList := None\<rparr>) =
     (RejectedWith TypeError, samplePage\<lparr>workoutList := None\<rparr>)"
  by (simp add: loadWorkouts_def samplePage_def)

text \<open>
  C2, amended. A run on a page that lacks one of the two elements is rejected with a
  TypeError raised before the \<open>try\<close> block and leaves the page as it was. On a page
  with both elements no fault ever leaves \<open>loadWorkouts\<close>, and every fault of the \<open>try\<close>
  block (a rejected \<open>fetch\<close>, a body that is not JSON, a TypeError while testing the
  length or rendering) ends the run fulfilled, with the fault logged and the display
  region showing the generic error message and nothing else.
\<close>

theorem loadWorkouts_catches_try_faults:
  "(userFilter pg = None \<or> workoutList pg = None \<longrightarrow>
      loadWorkouts pf net pg = (RejectedWith TypeError, pg)) \<and>
   (userFilter pg = Some v \<and> workoutList pg \<noteq> None \<longrightarrow>
      (\<forall>e. fst (loadWorkouts pf net pg) \<noteq> RejectedWith e) \<and>
      (net (buildUrl v) = Rejects \<longrightarrow>
         loadWorkouts pf net pg =
           (Fulfilled, ended pg v errorHTML [ConsoleError FetchFailed, SetInnerHTML errorHTML])) \<and>
      (\<forall>resp. net (buildUrl v) = Resolves resp \<and> body resp = NotJson \<longrightarrow>
         loadWorkouts pf net pg =
           (Fulfilled,
            ended pg v errorHTML [ConsoleError JsonSyntaxError, SetInnerHTML errorHTML])) \<and>
      (\<forall>resp workouts. net (buildUrl v) = Resolves resp \<and> body resp = Json workouts \<and>
           (lengthIsZero workouts = None \<or>
            lengthIsZero workouts = Some False \<and>
              mapJoin (renderWorkout pf) workouts = None) \<longrightarrow>
         loadWorkouts pf net pg =
           (Fulfilled, ended pg v errorHTML [ConsoleError TypeError, SetInnerHTML errorHTML])))"
proof (intro conjI impI)
  assume "userFilter pg = None \<or> workoutList pg = None"
  then show "loadWorkouts pf net pg = (RejectedWith TypeError, pg)"
    by (rule loadWorkouts_missing)
next
  assume "userFilter pg = Some v \<and> workoutList pg \<noteq> None"
  then obtain old where p: "userFilter pg = Some v" "workoutList pg = Some old"
    by auto
  from loadWorkouts_outcomes [OF p, of net pf]
  show "\<forall>e. fst (loadWorkouts pf net pg) \<noteq> RejectedWith e"
    by auto
  show "loadWorkouts pf net pg =
          (Fulfilled, ended pg v errorHTML [ConsoleError FetchFailed, SetInnerHTML errorHTML])"
    if "net (buildUrl v) = Rejects"
    using that by (rule loadWorkouts_rejects [where net = net, OF p])
  show "\<forall>resp. net (buildUrl v) = Resolves resp \<and> body resp = NotJson \<longrightarrow>
          loadWorkouts pf net pg =
            (Fulfilled,
             ended pg v errorHTML [ConsoleError JsonSyntaxError, SetInnerHTML errorHTML])"
    using loadWorkouts_not_json [where net = net, OF p] by blast
  show "\<forall>resp workouts. net (buildUrl v) = Resolves resp \<and> body resp = Json workouts \<and>
           (lengthIsZero workouts = None \<or>
            lengthIsZero workouts = Some False \<and>
              mapJoin (renderWorkout pf) workouts = None) \<longrightarrow>
         loadWorkouts pf net pg =
           (Fulfilled, ended pg v errorHTML [ConsoleError TypeError, SetInnerHTML errorHTML])"
    using loadWorkouts_type_error [where net = net, OF p] by blast
qed

theorem loadWorkouts_catches_try_faults_witness:
  "loadWorkouts hostUTC offline (samplePage\<lparr>userFilter := None\<rparr>) =
     (RejectedWith TypeError, samplePage\<lparr>userFilter := None\<rparr>) \<and>
   loadWorkouts hostUTC offline samplePage =
     (Fulfilled,
      ended samplePage [] errorHTML [ConsoleError FetchFailed, SetInnerHTML errorHTML]) \<and>
   loadWorkouts hostUTC (serves 502 NotJson) samplePage =
     (Fulfilled,
      ended samplePage [] errorHTML [ConsoleError JsonSyntaxError, SetInnerHTML errorHTML]) \<and>
   loadWorkouts hostUTC (serves 200 (Json (JArr [sampleWorkout, JNull]))) samplePage =
     (Fulfilled,
      ended samplePage [] errorHTML [ConsoleError TypeError, SetInnerHTML errorHTML])"
proof -
  have p: "userFilter samplePage = Some [] \<and> workoutList samplePage \<noteq> None"
    by (simp add: samplePage_def)
  have r: "offline (buildUrl []) = Rejects"
    by (simp add: offline_def)
  have m: "userFilter (samplePage\<lparr>userFilter := None\<rparr>) = None \<or>
           workoutList (samplePage\<lparr>userFilter := None\<rparr>) = None"
    by simp
  have t: "lengthIsZero (JArr [sampleWorkout, JNull]) = None \<or>
           lengthIsZero (JArr [sampleWorkout, JNull]) = Some False \<and>
             mapJoin (renderWorkout hostUTC) (JArr [sampleWorkout, JNull]) = None"
  proof -
    have "those (map (renderWorkout hostUTC) [sampleWorkout, JNull]) = None"
      by (rule those_map_None [of JNull]) (simp_all add: renderWorkout_JNull)
    then have "mapJoin (renderWorkout hostUTC) (JArr [sampleWorkout, JNull]) = None"
      by (simp only: mapJoin_JArr option.map)
    then show ?thesis
      by (simp add: lengthIsZero_def)
  qed
  have "loadWorkouts hostUTC offline (samplePage\<lparr>userFilter := None\<rparr>) =
          (RejectedWith TypeError, samplePage\<lparr>userFilter := None\<rparr>)"
    using loadWorkouts_catches_try_faults
      [where pg = "samplePage\<lparr>userFilter := None\<rparr>" and pf = hostUTC and net = offline] m
    by blast
  moreover have "loadWorkouts hostUTC offline samplePage =
      (Fulfilled,
       ended samplePage [] errorHTML [ConsoleError FetchFailed, SetInnerHTML errorHTML])"
    using loadWorkouts_catches_try_faults
      [where pg = samplePage and pf = hostUTC and net = offline and v = "[]"] p r
    by blast
  moreover have "loadWorkouts hostUTC (serves 502 NotJson) samplePage =
      (Fulfilled,
       ended samplePage [] errorHTML [ConsoleError JsonSyntaxError, SetInnerHTML errorHTML])"
  proof -
    have "serves 502 NotJson (buildUrl []) = Resolves \<lparr>status = 502, body = NotJson\<rparr> \<and>
          body \<lparr>status = 502, body = NotJson\<rparr> = NotJson"
      by (simp add: serves_def)
    then show ?thesis
      using loadWorkouts_catches_try_faults
        [where pg = samplePage and pf = hostUTC and net = "serves 502 NotJson" and v = "[]"] p
      by blast
  qed
  moreover have "loadWorkouts hostUTC (serves 200 (Json (JArr [sampleWorkout, JNull]))) samplePage =
      (Fulfilled,
       ended samplePage [] errorHTML [ConsoleError TypeError, SetInnerHTML errorHTML])"
  proof -
    have "serves 200 (Json (JArr [sampleWorkout, JNull])) (buildUrl []) =
            Resolves \<lparr>status = 200, body = Json (JArr [sampleWorkout, JNull])\<rparr> \<and>
          body \<lparr>status = 200, body = Json (JArr [sampleWorkout, JNull])\<rparr> =
            Json (JArr [sampleWorkout, JNull])"
      by (simp add: serves_def)
    then show ?thesis
      using loadWorkouts_catches_try_faults
        [where pg = samplePage and pf = hostUTC and v = "[]"
           and net = "serves 200 (Json (JArr [sampleWorkout, JNull]))"] p t
      by blast
  qed
  ultimately show ?thesis
    by blast
qed

text \<open>
  C3. A run issues exactly one request. Its URL is the base endpoint followed by
  \<open>?user_id=\<close> and the filter value, character for character, when the filter value is
  not empty, and the base endpoint alone when it is empty.
\<close>

theorem loadWorkouts_request_url:
  assumes "userFilter pg = Some v" and "workoutList pg = Some old"
  shows "requests (snd (loadWorkouts pf net pg)) =
           requests pg @
           [if v = [] then ''http://localhost:8000/workouts''
            else ''http://localhost:8000/workouts?user_id='' @ v]"
proof -
  have u: "buildUrl v =
             (if v = [] then ''http://localhost:8000/workouts''
              else ''http://localhost:8000/workouts?user_id='' @ v)"
    by (simp add: buildUrl_def baseUrl_def)
  have "requests (snd (loadWorkouts pf net pg)) = requests pg @ [buildUrl v]"
  proof (cases "net (buildUrl v)")
    case NeverSettles
    then show ?thesis
      by (simp add: loadWorkouts_never [where net = net, OF assms] requests_ended)
  next
    case Rejects
    then show ?thesis
      by (simp add: loadWorkouts_rejects [where net = net, OF assms] requests_ended)
  next
    case (Resolves resp)
    note run = assms Resolves
    show ?thesis
    proof (cases "afterFetch pf resp (emit (Fetch (buildUrl v)) (setInnerHTML loadingHTML pg))")
      case (Inl e)
      then show ?thesis
        by (simp add: loadWorkouts_fault [where net = net, OF run] requests_ended)
    next
      case (Inr pg3)
      then obtain workouts where b: "body resp = Json workouts"
        by (auto simp: afterFetch_def split: json_body.splits)
      from Inr b obtain isEmpty where z: "lengthIsZero workouts = Some isEmpty"
        by (auto simp: afterFetch_def split: option.splits)
      show ?thesis
      proof (cases isEmpty)
        case True
        with z show ?thesis
          by (simp add: loadWorkouts_empty [where net = net, OF run b] requests_ended)
      next
        case False
        with Inr b z obtain html where "mapJoin (renderWorkout pf) workouts = Some html"
          by (auto simp: afterFetch_def split: option.splits)
        with z False show ?thesis
          by (simp add: loadWorkouts_populated [where net = net, OF run b] requests_ended)
      qed
    qed
  qed
  then show ?thesis
    by (simp only: u)
qed

theorem loadWorkouts_request_url_witness:
  "requests (snd (loadWorkouts hostUTC hangs
       (samplePage\<lparr>userFilter := Some ''7&x= <1>''\<rparr>))) =
     [''http://localhost:8000/workouts?user_id=7&x= <1>''] \<and>
   requests (snd (loadWorkouts hostUTC offline samplePage)) =
     [''http://localhost:8000/workouts'']"
proof -
  have 1: "userFilter (samplePage\<lparr>userFilter := Some ''7&x= <1>''\<rparr>) = Some ''7&x= <1>''"
    and 2: "workoutList (samplePage\<lparr>userFilter := Some ''7&x= <1>''\<rparr>) = Some []"
    and 3: "userFilter samplePage = Some []" and 4: "workoutList samplePage = Some []"
    by (simp_all add: samplePage_def)
  have 5: "requests (samplePage\<lparr>userFilter := Some ''7&x= <1>''\<rparr>) = []"
    and 6: "requests samplePage = []"
    by (simp_all add: requests_def samplePage_def)
  show ?thesis
    using loadWorkouts_request_url [OF 1 2, of hostUTC hangs]
      loadWorkouts_request_url [OF 3 4, of hostUTC offline]
    by (simp add: 5 6)
qed

text \<open>
  C4. When the endpoint answers with the empty array, the run writes the loading
  placeholder, issues the request, writes the message
  \<open><p>No workouts found. Start logging!</p>\<close> and returns: it writes no card and logs
  nothing.
\<close>

theorem loadWorkouts_empty_array:
  assumes "userFilter pg = Some v" and "workoutList pg = Some old"
      and "net (buildUrl v) = Resolves resp" and "body resp = Json (JArr [])"
  shows \<open>loadWorkouts pf net pg =
           (Fulfilled,
            pg\<lparr>workoutList := Some ''<p>No workouts found. Start logging!</p>'',
               effects := effects pg @
                 [SetInnerHTML ''<p>Loading workouts...</p>'',
                  Fetch (if v = [] then ''http://localhost:8000/workouts''
                    else ''http://localhost:8000/workouts?user_id='' @ v),
                  SetInnerHTML ''<p>No workouts found. Start logging!</p>'']\<rparr>)\<close>
proof -
  have "lengthIsZero (JArr []) = Some True"
    by (simp add: lengthIsZero_def)
  from loadWorkouts_empty [where net = net, OF assms this] show ?thesis
    by (simp add: ended_def emptyHTML_def loadingHTML_def buildUrl_def baseUrl_def)
qed

theorem loadWorkouts_empty_array_witness:
  \<open>loadWorkouts hostUTC (serves 200 (Json (JArr []))) samplePage =
     (Fulfilled,
      samplePage\<lparr>workoutList := Some ''<p>No workouts found. Start logging!</p>'',
         effects :=
           [SetInnerHTML ''<p>Loading workouts...</p>'',
            Fetch ''http://localhost:8000/workouts'',
            SetInnerHTML ''<p>No workouts found. Start logging!</p>'']\<rparr>)\<close>
proof -
  have 1: "userFilter samplePage = Some []" and 2: "workoutList samplePage = Some []"
    and 5: "effects samplePage = []"
    by (simp_all add: samplePage_def)
  have 3: "serves 200 (Json (JArr [])) (buildUrl []) =
             Resolves \<lparr>status = 200, body = Json (JArr [])\<rparr>"
    by (simp add: serves_def)
  have 4: "body \<lparr>status = 200, body = Json (JArr [])\<rparr> = Json (JArr [])"
    by simp
  from loadWorkouts_empty_array [where net = "serves 200 (Json (JArr []))", OF 1 2 3 4, of hostUTC]
  show ?thesis
    by (simp add: 5)
qed

text \<open>
  C5. The card of a Workout shows, between the exercise count and \<open>lbs\<close>, the text of
  \<open>Math.round\<close> of its total volume: an integer at most one half away from the volume,
  printed in decimal digits when the volume is below \<open>2 ^ 52\<close> in magnitude, so that
  a volume of 245.6 (any volume from 245.5 up to 246.5) shows \<open>246\<close>. The maximum weight
  of each exercise is shown as the text of the number itself: no rounding is applied,
  and a weight that is not a safe integer is printed by the platform as it is.
\<close>

theorem renderWorkout_rounds_volume_only:
  assumes "isWorkout w"
      and "getProp w ''total_volume'' = Some (JNum (Finite x))"
      and "getProp w ''exercises'' = Some (JArr exs)"
  shows "\<exists>markup.
           renderWorkout pf w = Some markup \<and>
           sublist (cardAfterCount @ numberToString pf (Finite (of_int \<lfloor>x + 1 / 2\<rfloor>)) @
                    cardAfterVolume) markup \<and>
           \<bar>of_int \<lfloor>x + 1 / 2\<rfloor> - x\<bar> \<le> 1 / 2 \<and>
           (\<bar>x\<bar> < 2 ^ 52 \<longrightarrow>
              numberToString pf (Finite (of_int \<lfloor>x + 1 / 2\<rfloor>)) = intText \<lfloor>x + 1 / 2\<rfloor>) \<and>
           (491 / 2 \<le> x \<and> x < 493 / 2 \<longrightarrow>
              numberToString pf (Finite (of_int \<lfloor>x + 1 / 2\<rfloor>)) = ''246'') \<and>
           (\<forall>ex \<in> set exs. \<forall>y. getProp ex ''max_weight'' = Some (JNum y) \<longrightarrow>
              sublist (tagAfterSets @ numberToString pf y @ tagAfterWeight) markup \<and>
              (\<forall>q. y = Finite q \<and> \<not> isSafeInteger q \<longrightarrow>
                 numberToString pf y = numberFormat pf q))"
proof -
  from renderWorkout_workout [OF assms(1), of pf]
  obtain kvs date count volume exs' tags where w: "w = JObj kvs"
    and v: "ownProp kvs ''total_volume'' = JNum volume"
    and e: "ownProp kvs ''exercises'' = JArr exs'"
    and t: "map (renderExercise pf) exs' = map Some tags"
    and r: "renderWorkout pf w =
              Some (cardOpen @ toLocaleDateString pf (dateParse pf date) @ cardAfterDate @
                    numberToString pf count @ cardAfterCount @
                    numberToString pf (mathRound volume) @ cardAfterVolume @
                    concat tags @ cardClose)"
    by blast
  define markup where
    "markup = cardOpen @ toLocaleDateString pf (dateParse pf date) @ cardAfterDate @
            numberToString pf count @ cardAfterCount @
            numberToString pf (mathRound volume) @ cardAfterVolume @ concat tags @ cardClose"
  have volume: "volume = Finite x"
    using assms(2) w v by (simp add: getProp_JObj)
  have exs: "exs' = exs"
    using assms(3) w e by (simp add: getProp_JObj)
  have all: "list_all isExerciseSummary exs"
    using assms(1) w e exs by (simp add: isWorkout_def)
  have 1: "sublist (cardAfterCount @ numberToString pf (Finite (of_int \<lfloor>x + 1 / 2\<rfloor>)) @
                    cardAfterVolume) markup"
  proof -
    have "markup = (cardOpen @ toLocaleDateString pf (dateParse pf date) @ cardAfterDate @
                  numberToString pf count) @
                 (cardAfterCount @ numberToString pf (Finite (of_int \<lfloor>x + 1 / 2\<rfloor>)) @
                  cardAfterVolume) @ (concat tags @ cardClose)"
      by (simp add: markup_def volume mathRound_def)
    then show ?thesis
      by (metis sublist_appendI)
  qed
  have 2: "sublist (tagAfterSets @ numberToString pf y @ tagAfterWeight) markup"
    if "ex \<in> set exs" and "getProp ex ''max_weight'' = Some (JNum y)" for ex y
  proof -
    from that(1) all have "isExerciseSummary ex"
      by (simp add: list_all_iff)
    from renderExercise_summary [OF this, of pf]
    obtain ekvs name sets weight reps where ex: "ex = JObj ekvs"
      and mw: "ownProp ekvs ''max_weight'' = JNum weight"
      and tag: "renderExercise pf ex =
                  Some (tagOpen @ name @ tagAfterName @ numberToString pf sets @ tagAfterSets @
                        numberToString pf weight @ tagAfterWeight @ numberToString pf reps @
                        tagClose)"
      by blast
    have y: "weight = y"
      using that(2) ex mw by (simp add: getProp_JObj)
    from map_Some_member [OF t [unfolded exs] that(1)] tag
    have "tagOpen @ name @ tagAfterName @ numberToString pf sets @ tagAfterSets @
          numberToString pf y @ tagAfterWeight @ numberToString pf reps @ tagClose \<in> set tags"
      by (auto simp: y)
    then obtain ts1 ts2 where "tags = ts1 @
        (tagOpen @ name @ tagAfterName @ numberToString pf sets @ tagAfterSets @
          numberToString pf y @ tagAfterWeight @ numberToString pf reps @ tagClose) # ts2"
      by (auto simp: in_set_conv_decomp)
    then have "markup = (cardOpen @ toLocaleDateString pf (dateParse pf date) @ cardAfterDate @
                  numberToString pf count @ cardAfterCount @
                  numberToString pf (mathRound volume) @ cardAfterVolume @ concat ts1 @
                  tagOpen @ name @ tagAfterName @ numberToString pf sets) @
                 (tagAfterSets @ numberToString pf y @ tagAfterWeight) @
                 (numberToString pf reps @ tagClose @ concat ts2 @ cardClose)"
      by (simp add: markup_def)
    then show ?thesis
      by (metis sublist_appendI)
  qed
  have 3: "numberToString pf (Finite q) = numberFormat pf q" if "\<not> isSafeInteger q" for q
    using that by (simp add: numberToString_def)
  have 4: "numberToString pf (Finite (of_int \<lfloor>x + 1 / 2\<rfloor>)) = ''246''"
    if "491 / 2 \<le> x \<and> x < 493 / 2"
  proof -
    have "\<bar>x\<bar> < 2 ^ 52"
      using that by simp
    then have "numberToString pf (Finite (of_int \<lfloor>x + 1 / 2\<rfloor>)) = intText \<lfloor>x + 1 / 2\<rfloor>"
      by (rule numberToString_rounded)
    moreover have "\<lfloor>x + 1 / 2\<rfloor> = 246"
      using that by (intro rounds_to_246) simp_all
    ultimately show ?thesis
      by (simp only: intText_246)
  qed
  show ?thesis
    using r 1 2 3 4 mathRound_nearest [of x] numberToString_rounded [of x pf]
    unfolding markup_def [symmetric] by blast
qed

theorem renderWorkout_rounds_volume_only_witness:
  "\<exists>markup. renderWorkout hostUTC rowingDay = Some markup \<and>
     sublist (cardAfterCount @ ''246'' @ cardAfterVolume) markup \<and>
     sublist (tagAfterSets @ ''150.5'' @ tagAfterWeight) markup"
proof -
  have 1: "isWorkout rowingDay"
    by code_simp
  have 2: "getProp rowingDay ''total_volume'' = Some (JNum (Finite (1228 / 5)))"
    and 3: "getProp rowingDay ''exercises'' = Some (JArr [row])"
    by (simp_all add: rowingDay_def getProp_def ownProp_def)
  have 4: "getProp row ''max_weight'' = Some (JNum (Finite (301 / 2)))"
    by (simp add: row_def getProp_def ownProp_def)
  have 5: "numberToString hostUTC (Finite (301 / 2)) = ''150.5''"
    by code_simp
  have 6: "491 / 2 \<le> (1228 / 5 :: rat) \<and> (1228 / 5 :: rat) < 493 / 2"
    by simp
  from renderWorkout_rounds_volume_only [OF 1 2 3, of hostUTC]
  obtain markup where c: "renderWorkout hostUTC rowingDay = Some markup"
    and v: "491 / 2 \<le> (1228 / 5 :: rat) \<and> (1228 / 5 :: rat) < 493 / 2 \<longrightarrow>
            numberToString hostUTC (Finite (of_int \<lfloor>(1228 / 5 :: rat) + 1 / 2\<rfloor>)) = ''246''"
    and s: "sublist (cardAfterCount @
              numberToString hostUTC (Finite (of_int \<lfloor>(1228 / 5 :: rat) + 1 / 2\<rfloor>)) @
              cardAfterVolume) markup"
    and w: "\<forall>ex \<in> set [row]. \<forall>y. getProp ex ''max_weight'' = Some (JNum y) \<longrightarrow>
              sublist (tagAfterSets @ numberToString hostUTC y @ tagAfterWeight) markup \<and>
              (\<forall>q. y = Finite q \<and> \<not> isSafeInteger q \<longrightarrow>
                 numberToString hostUTC y = numberFormat hostUTC q)"
    by blast
  from v 6 have "numberToString hostUTC (Finite (of_int \<lfloor>(1228 / 5 :: rat) + 1 / 2\<rfloor>)) = ''246''"
    by blast
  with s have "sublist (cardAfterCount @ ''246'' @ cardAfterVolume) markup"
    by simp
  moreover from w 4 have "sublist (tagAfterSets @ numberToString hostUTC (Finite (301 / 2)) @
      tagAfterWeight) markup"
    by simp
  then have "sublist (tagAfterSets @ ''150.5'' @ tagAfterWeight) markup"
    by (simp only: 5)
  ultimately show ?thesis
    using c by blast
qed

text \<open>
  C6, as stated, fails for a request that never settles: the run does not terminate and
  the display region stays on the loading placeholder, which is none of the three
  final states.
\<close>

theorem loadWorkouts_hung_request_stays_loading:
  "fst (loadWorkouts hostUTC hangs samplePage) = Pending \<and>
   workoutList (snd (loadWorkouts hostUTC hangs samplePage)) = Some loadingHTML \<and>
   loadingHTML \<noteq> emptyHTML \<and> loadingHTML \<noteq> errorHTML \<and>
   \<not> isCardMarkup hostUTC loadingHTML"
proof -
  have "userFilter samplePage = Some []" and "workoutList samplePage = Some []"
    by (simp_all add: samplePage_def)
  then have "loadWorkouts hostUTC hangs samplePage =
               (Pending, ended samplePage [] loadingHTML [])"
    by (rule loadWorkouts_never) (simp add: hangs_def)
  then show ?thesis
    by (simp add: workoutList_ended messages_not_cards messages_distinct)
qed

text \<open>
  C6, amended. On a page with both elements a run first writes the loading placeholder
  and then issues the request. If the request never settles, the run stays pending with
  the placeholder displayed. If it settles, the run is fulfilled and the display region
  is in exactly one of three states: card markup, the empty-state message, or the error
  message. Whatever the region displayed before, and whichever listener starts the run,
  the outcome is the same.
\<close>

theorem loadWorkouts_sequence:
  assumes "userFilter pg = Some v" and "workoutList pg = Some old"
  shows "(\<exists>rest. effects (snd (loadWorkouts pf net pg)) =
            effects pg @ SetInnerHTML loadingHTML # Fetch (buildUrl v) # rest) \<and>
         (net (buildUrl v) = NeverSettles \<longrightarrow>
            fst (loadWorkouts pf net pg) = Pending \<and>
            workoutList (snd (loadWorkouts pf net pg)) = Some loadingHTML) \<and>
         (net (buildUrl v) \<noteq> NeverSettles \<longrightarrow>
            fst (loadWorkouts pf net pg) = Fulfilled \<and>
            (\<exists>html. workoutList (snd (loadWorkouts pf net pg)) = Some html \<and>
               (isCardMarkup pf html \<and> html \<noteq> emptyHTML \<and> html \<noteq> errorHTML \<or>
                html = emptyHTML \<and> html \<noteq> errorHTML \<and> \<not> isCardMarkup pf html \<or>
                html = errorHTML \<and> html \<noteq> emptyHTML \<and> \<not> isCardMarkup pf html))) \<and>
         (\<forall>ev pg'. userFilter pg' = Some v \<and> workoutList pg' \<noteq> None \<longrightarrow>
            fst (handleEvent pf net ev pg') = fst (loadWorkouts pf net pg) \<and>
            workoutList (snd (handleEvent pf net ev pg')) =
              workoutList (snd (loadWorkouts pf net pg)))"
proof (intro conjI)
  note cases = loadWorkouts_outcomes [OF assms, of net pf]
  show "\<exists>rest. effects (snd (loadWorkouts pf net pg)) =
          effects pg @ SetInnerHTML loadingHTML # Fetch (buildUrl v) # rest"
    using cases by (auto simp: effects_ended)
  show "net (buildUrl v) = NeverSettles \<longrightarrow>
          fst (loadWorkouts pf net pg) = Pending \<and>
          workoutList (snd (loadWorkouts pf net pg)) = Some loadingHTML"
    using cases by (auto simp: workoutList_ended)
  show "net (buildUrl v) \<noteq> NeverSettles \<longrightarrow>
          fst (loadWorkouts pf net pg) = Fulfilled \<and>
          (\<exists>html. workoutList (snd (loadWorkouts pf net pg)) = Some html \<and>
             (isCardMarkup pf html \<and> html \<noteq> emptyHTML \<and> html \<noteq> errorHTML \<or>
              html = emptyHTML \<and> html \<noteq> errorHTML \<and> \<not> isCardMarkup pf html \<or>
              html = errorHTML \<and> html \<noteq> emptyHTML \<and> \<not> isCardMarkup pf html))"
    using cases messages_not_cards [of pf] messages_distinct
    by (auto simp: workoutList_ended)
  show "\<forall>ev pg'. userFilter pg' = Some v \<and> workoutList pg' \<noteq> None \<longrightarrow>
          fst (handleEvent pf net ev pg') = fst (loadWorkouts pf net pg) \<and>
          workoutList (snd (handleEvent pf net ev pg')) =
            workoutList (snd (loadWorkouts pf net pg))"
    using loadWorkouts_prior_state [OF assms, of _ _ pf net]
    by (auto simp: handleEvent_def)
qed

theorem loadWorkouts_sequence_witness:
  "fst (loadWorkouts hostUTC hangs samplePage) = Pending \<and>
   workoutList (snd (loadWorkouts hostUTC hangs samplePage)) = Some loadingHTML \<and>
   fst (loadWorkouts hostUTC (serves 200 (Json (JArr [sampleWorkout]))) samplePage) = Fulfilled \<and>
   (\<exists>html.
      workoutList (snd (loadWorkouts hostUTC (serves 200 (Json (JArr [sampleWorkout]))) samplePage)) =
        Some html \<and>
      workoutList
        (snd (handleEvent hostUTC (serves 200 (Json (JArr [sampleWorkout]))) FilterChange
           (samplePage\<lparr>workoutList := Some errorHTML\<rparr>))) = Some html \<and>
      (isCardMarkup hostUTC html \<and> html \<noteq> emptyHTML \<and> html \<noteq> errorHTML \<or>
       html = emptyHTML \<and> html \<noteq> errorHTML \<and> \<not> isCardMarkup hostUTC html \<or>
       html = errorHTML \<and> html \<noteq> emptyHTML \<and> \<not> isCardMarkup hostUTC html))"
proof -
  have 1: "userFilter samplePage = Some []" and 2: "workoutList samplePage = Some []"
    by (simp_all add: samplePage_def)
  have 3: "hangs (buildUrl []) = NeverSettles"
    by (simp add: hangs_def)
  have 4: "serves 200 (Json (JArr [sampleWorkout])) (buildUrl []) \<noteq> NeverSettles"
    by (simp add: serves_def)
  have 5: "userFilter (samplePage\<lparr>workoutList := Some errorHTML\<rparr>) = Some [] \<and>
           workoutList (samplePage\<lparr>workoutList := Some errorHTML\<rparr>) \<noteq> None"
    by (simp add: samplePage_def)
  from loadWorkouts_sequence [OF 1 2, of hostUTC hangs] 3
  have "fst (loadWorkouts hostUTC hangs samplePage) = Pending \<and>
        workoutList (snd (loadWorkouts hostUTC hangs samplePage)) = Some loadingHTML"
    by blast
  moreover
  from loadWorkouts_sequence [OF 1 2, of hostUTC "serves 200 (Json (JArr [sampleWorkout]))"] 4 5
  have "fst (loadWorkouts hostUTC (serves 200 (Json (JArr [sampleWorkout]))) samplePage) =
          Fulfilled \<and>
   (\<exists>html.
      workoutList (snd (loadWorkouts hostUTC (serves 200 (Json (JArr [sampleWorkout]))) samplePage)) =
        Some html \<and>
      workoutList
        (snd (handleEvent hostUTC (serves 200 (Json (JArr [sampleWorkout]))) FilterChange
           (samplePage\<lparr>workoutList := Some errorHTML\<rparr>))) = Some html \<and>
      (isCardMarkup hostUTC html \<and> html \<noteq> emptyHTML \<and> html \<noteq> errorHTML \<or>
       html = emptyHTML \<and> html \<noteq> errorHTML \<and> \<not> isCardMarkup hostUTC html \<or>
       html = errorHTML \<and> html \<noteq> emptyHTML \<and> \<not> isCardMarkup hostUTC html))"
    by metis
  ultimately show ?thesis
    by blast
qed

text \<open>
  C7. For every string, \<open>formatDate\<close> returns a string and throws nothing; for a string
  that \<open>Date.parse\<close> cannot read it returns \<open>Invalid Date\<close>.
\<close>

theorem formatDate_string_never_throws:
  "(\<exists>out. formatDate pf (JStr s) = Some out) \<and>
   (dateParse pf s = InvalidDate \<longrightarrow> formatDate pf (JStr s) = Some ''Invalid Date'')"
  by (simp add: formatDate_JStr toLocaleDateString_def)

theorem formatDate_string_never_throws_witness:
  "dateParse hostUTC ''next friday'' = InvalidDate \<and>
   formatDate hostUTC (JStr ''next friday'') = Some ''Invalid Date''"
proof -
  have 1: "dateParse hostUTC ''next friday'' = InvalidDate"
    by code_simp
  with formatDate_string_never_throws [of hostUTC "''next friday''"] show ?thesis
    by blast
qed

text \<open>
  C8. \<open>formatDate\<close> parses a date-only string as midnight UTC and prints the fields of
  that instant in the local time zone of the host. On a host five hours behind UTC the
  string \<open>2024-03-15\<close>, a Friday, is printed as Thursday, March 14: the weekday and the
  day are not those of the date given.
\<close>

theorem formatDate_west_of_greenwich:
  "formatDate hostWest (JStr ''2024-03-15'') = Some ''Thu, Mar 14, 2024''"
  by code_simp

text \<open>
  C9, as stated, fails twice: an array body with a \<open>null\<close> element, and a JSON body that
  is an object (as an error response carries), both reach the error branch although
  \<open>fetch\<close> resolved and the body parsed.
\<close>

theorem loadWorkouts_json_reaches_error_branch:
  "workoutList (snd (loadWorkouts hostUTC (serves 200 (Json (JArr [JNull]))) samplePage)) =
     Some errorHTML \<and>
   workoutList
     (snd (loadWorkouts hostUTC (serves 404 (Json (JObj [(''detail'', JStr ''Not Found'')])))
        samplePage)) = Some errorHTML"
proof -
  have p: "userFilter samplePage = Some []" "workoutList samplePage = Some []"
    by (simp_all add: samplePage_def)
  have 1: "lengthIsZero (JArr [JNull]) = None \<or>
           lengthIsZero (JArr [JNull]) = Some False \<and>
             mapJoin (renderWorkout hostUTC) (JArr [JNull]) = None"
    by (simp add: lengthIsZero_def mapJoin_JArr renderWorkout_JNull)
  have 2: "lengthIsZero (JObj [(''detail'', JStr ''Not Found'')]) = None \<or>
           lengthIsZero (JObj [(''detail'', JStr ''Not Found'')]) = Some False \<and>
             mapJoin (renderWorkout hostUTC) (JObj [(''detail'', JStr ''Not Found'')]) = None"
    by (simp add: lengthIsZero_def mapJoin_def)
  have "loadWorkouts hostUTC (serves 200 (Json (JArr [JNull]))) samplePage =
          (Fulfilled, ended samplePage [] errorHTML [ConsoleError TypeError, SetInnerHTML errorHTML])"
    by (rule loadWorkouts_type_error
          [where net = "serves 200 (Json (JArr [JNull]))", OF p serves_resolves _ 1]) simp
  moreover have "loadWorkouts hostUTC
      (serves 404 (Json (JObj [(''detail'', JStr ''Not Found'')]))) samplePage =
          (Fulfilled, ended samplePage [] errorHTML [ConsoleError TypeError, SetInnerHTML errorHTML])"
    by (rule loadWorkouts_type_error
          [where net = "serves 404 (Json (JObj [(''detail'', JStr ''Not Found'')]))",
            OF p serves_resolves _ 2]) simp
  ultimately show ?thesis
    by (simp add: workoutList_ended)
qed

text \<open>
  C9, amended. The run never reads the status: two responses with the same body give the
  same run. A body that parses as an array ends the run fulfilled, showing the empty-state
  message when the array is empty, the cards when every element renders (as every
  Workout record does), and the error message when an element faults while rendering
  (as \<open>null\<close> does). A body that parses as an object with no \<open>length\<close> of zero reaches
  the error branch too, as do a body that is not JSON and a rejected \<open>fetch\<close>.
\<close>

theorem loadWorkouts_ignores_status:
  assumes "userFilter pg = Some v" and "workoutList pg = Some old"
  shows \<open>(\<forall>resp. net (buildUrl v) = Resolves resp \<longrightarrow>
            (\<forall>net' resp'. net' (buildUrl v) = Resolves resp' \<and> body resp' = body resp \<longrightarrow>
               loadWorkouts pf net' pg = loadWorkouts pf net pg) \<and>
            (\<forall>ws. body resp = Json (JArr ws) \<longrightarrow>
               fst (loadWorkouts pf net pg) = Fulfilled \<and>
               workoutList (snd (loadWorkouts pf net pg)) =
                 Some (if ws = [] then ''<p>No workouts found. Start logging!</p>''
                       else case those (map (renderWorkout pf) ws) of
                              Some cards \<Rightarrow> concat cards
                            | None \<Rightarrow> ''<p class="error">Error loading workouts. Please try again.</p>'') \<and>
               (list_all isWorkout ws \<longrightarrow> those (map (renderWorkout pf) ws) \<noteq> None) \<and>
               (JNull \<in> set ws \<longrightarrow> those (map (renderWorkout pf) ws) = None)) \<and>
            (\<forall>kvs. body resp = Json (JObj kvs) \<and>
                 map_of kvs ''length'' \<noteq> Some (JNum (Finite 0)) \<longrightarrow>
               fst (loadWorkouts pf net pg) = Fulfilled \<and>
               workoutList (snd (loadWorkouts pf net pg)) =
                 Some ''<p class="error">Error loading workouts. Please try again.</p>'') \<and>
            (body resp = NotJson \<longrightarrow>
               fst (loadWorkouts pf net pg) = Fulfilled \<and>
               workoutList (snd (loadWorkouts pf net pg)) =
                 Some ''<p class="error">Error loading workouts. Please try again.</p>'')) \<and>
         (net (buildUrl v) = Rejects \<longrightarrow>
            fst (loadWorkouts pf net pg) = Fulfilled \<and>
            workoutList (snd (loadWorkouts pf net pg)) =
              Some ''<p class="error">Error loading workouts. Please try again.</p>'')\<close>
proof (intro conjI allI impI)
  fix resp net' resp'
  assume "net (buildUrl v) = Resolves resp"
    and "net' (buildUrl v) = Resolves resp' \<and> body resp' = body resp"
  then show "loadWorkouts pf net' pg = loadWorkouts pf net pg"
    using loadWorkouts_body_only [where net = net and net' = net', OF _ _ _ assms(1)] by blast
next
  fix resp ws
  assume r: "net (buildUrl v) = Resolves resp" and b: "body resp = Json (JArr ws)"
  from loadWorkouts_array [where net = net, OF assms r b, of pf]
  show "fst (loadWorkouts pf net pg) = Fulfilled"
    and \<open>workoutList (snd (loadWorkouts pf net pg)) =
          Some (if ws = [] then ''<p>No workouts found. Start logging!</p>''
                else case those (map (renderWorkout pf) ws) of
                       Some cards \<Rightarrow> concat cards
                     | None \<Rightarrow> ''<p class="error">Error loading workouts. Please try again.</p>'')\<close>
    unfolding emptyHTML_def errorHTML_def by simp_all
  show "those (map (renderWorkout pf) ws) \<noteq> None" if "list_all isWorkout ws"
    using renderAll_workouts [OF that, of pf] by (auto simp: those_map_Some_iff [symmetric])
  show "those (map (renderWorkout pf) ws) = None" if "JNull \<in> set ws"
    using that renderWorkout_JNull by (rule those_map_None)
next
  fix resp kvs
  assume r: "net (buildUrl v) = Resolves resp"
    and "body resp = Json (JObj kvs) \<and> map_of kvs ''length'' \<noteq> Some (JNum (Finite 0))"
  then have b: "body resp = Json (JObj kvs)"
    and t: "lengthIsZero (JObj kvs) = None \<or>
         lengthIsZero (JObj kvs) = Some False \<and> mapJoin (renderWorkout pf) (JObj kvs) = None"
    by (simp_all add: lengthIsZero_def mapJoin_def)
  from loadWorkouts_type_error [where net = net, OF assms r b t]
  show "fst (loadWorkouts pf net pg) = Fulfilled"
    and \<open>workoutList (snd (loadWorkouts pf net pg)) =
          Some ''<p class="error">Error loading workouts. Please try again.</p>''\<close>
    by (simp_all add: workoutList_catch)
next
  fix resp
  assume r: "net (buildUrl v) = Resolves resp" and b: "body resp = NotJson"
  from loadWorkouts_not_json [where net = net, OF assms r b]
  show "fst (loadWorkouts pf net pg) = Fulfilled"
    and \<open>workoutList (snd (loadWorkouts pf net pg)) =
          Some ''<p class="error">Error loading workouts. Please try again.</p>''\<close>
    by (simp_all add: workoutList_catch)
next
  assume r: "net (buildUrl v) = Rejects"
  from loadWorkouts_rejects [where net = net, OF assms r]
  show "fst (loadWorkouts pf net pg) = Fulfilled"
    and \<open>workoutList (snd (loadWorkouts pf net pg)) =
          Some ''<p class="error">Error loading workouts. Please try again.</p>''\<close>
    by (simp_all add: workoutList_catch)
qed

theorem loadWorkouts_ignores_status_witness:
  \<open>loadWorkouts hostUTC (serves 500 (Json (JArr [sampleWorkout]))) samplePage =
     loadWorkouts hostUTC (serves 200 (Json (JArr [sampleWorkout]))) samplePage \<and>
   fst (loadWorkouts hostUTC (serves 200 (Json (JArr [sampleWorkout]))) samplePage) = Fulfilled \<and>
   those (map (renderWorkout hostUTC) [sampleWorkout]) \<noteq> None \<and>
   workoutList (snd (loadWorkouts hostUTC (serves 200 (Json (JArr []))) samplePage)) =
     Some ''<p>No workouts found. Start logging!</p>'' \<and>
   workoutList (snd (loadWorkouts hostUTC (serves 200 (Json (JArr [sampleWorkout, JNull])))
      samplePage)) =
     Some ''<p class="error">Error loading workouts. Please try again.</p>'' \<and>
   workoutList (snd (loadWorkouts hostUTC (serves 200 (Json (JObj [(''detail'', JStr ''x'')])))
      samplePage)) =
     Some ''<p class="error">Error loading workouts. Please try again.</p>'' \<and>
   workoutList (snd (loadWorkouts hostUTC (serves 502 NotJson) samplePage)) =
     Some ''<p class="error">Error loading workouts. Please try again.</p>'' \<and>
   workoutList (snd (loadWorkouts hostUTC offline samplePage)) =
     Some ''<p class="error">Error loading workouts. Please try again.</p>''\<close>
proof -
  have 1: "userFilter samplePage = Some []" and 2: "workoutList samplePage = Some []"
    by (simp_all add: samplePage_def)
  note inst = loadWorkouts_ignores_status [where pf = hostUTC, OF 1 2]
  have w: "list_all isWorkout [sampleWorkout]"
    by code_simp
  have b: "body \<lparr>status = 200, body = Json (JArr [sampleWorkout])\<rparr> = Json (JArr [sampleWorkout])"
    "serves 500 (Json (JArr [sampleWorkout])) (buildUrl []) =
       Resolves \<lparr>status = 500, body = Json (JArr [sampleWorkout])\<rparr> \<and>
     body \<lparr>status = 500, body = Json (JArr [sampleWorkout])\<rparr> =
       body \<lparr>status = 200, body = Json (JArr [sampleWorkout])\<rparr>"
    by (simp_all add: serves_def)
  from inst [where net = "serves 200 (Json (JArr [sampleWorkout]))"]
    serves_resolves [of 200 "Json (JArr [sampleWorkout])" "buildUrl []"] b w
  have a: "loadWorkouts hostUTC (serves 500 (Json (JArr [sampleWorkout]))) samplePage =
       loadWorkouts hostUTC (serves 200 (Json (JArr [sampleWorkout]))) samplePage \<and>
     fst (loadWorkouts hostUTC (serves 200 (Json (JArr [sampleWorkout]))) samplePage) = Fulfilled \<and>
     those (map (renderWorkout hostUTC) [sampleWorkout]) \<noteq> None"
    by blast
  have "body \<lparr>status = 200, body = Json (JArr [])\<rparr> = Json (JArr [])"
    by simp
  with inst [where net = "serves 200 (Json (JArr []))"]
    serves_resolves [of 200 "Json (JArr [])" "buildUrl []"]
  have \<open>workoutList (snd (loadWorkouts hostUTC (serves 200 (Json (JArr []))) samplePage)) =
          Some (if ([] :: jsval list) = [] then ''<p>No workouts found. Start logging!</p>''
                else case those (map (renderWorkout hostUTC) []) of
                       Some cards \<Rightarrow> concat cards
                     | None \<Rightarrow> ''<p class="error">Error loading workouts. Please try again.</p>'')\<close>
    by blast
  then have e: \<open>workoutList (snd (loadWorkouts hostUTC (serves 200 (Json (JArr []))) samplePage)) =
     Some ''<p>No workouts found. Start logging!</p>''\<close>
    by simp
  have n: "body \<lparr>status = 200, body = Json (JArr [sampleWorkout, JNull])\<rparr> =
             Json (JArr [sampleWorkout, JNull])"
    "JNull \<in> set [sampleWorkout, JNull]"
    by simp_all
  from inst [where net = "serves 200 (Json (JArr [sampleWorkout, JNull]))"]
    serves_resolves [of 200 "Json (JArr [sampleWorkout, JNull])" "buildUrl []"] n
  have \<open>those (map (renderWorkout hostUTC) [sampleWorkout, JNull]) = None \<and>
        workoutList (snd (loadWorkouts hostUTC (serves 200 (Json (JArr [sampleWorkout, JNull])))
          samplePage)) =
          Some (if [sampleWorkout, JNull] = [] then ''<p>No workouts found. Start logging!</p>''
                else case those (map (renderWorkout hostUTC) [sampleWorkout, JNull]) of
                       Some cards \<Rightarrow> concat cards
                     | None \<Rightarrow> ''<p class="error">Error loading workouts. Please try again.</p>'')\<close>
    by blast
  then have c: \<open>workoutList (snd (loadWorkouts hostUTC
      (serves 200 (Json (JArr [sampleWorkout, JNull]))) samplePage)) =
     Some ''<p class="error">Error loading workouts. Please try again.</p>''\<close>
    by simp
  have o: "body \<lparr>status = 200, body = Json (JObj [(''detail'', JStr ''x'')])\<rparr> =
             Json (JObj [(''detail'', JStr ''x'')]) \<and>
           map_of [(''detail'', JStr ''x'')] ''length'' \<noteq> Some (JNum (Finite 0))"
    by simp
  from inst [where net = "serves 200 (Json (JObj [(''detail'', JStr ''x'')]))"]
    serves_resolves [of 200 "Json (JObj [(''detail'', JStr ''x'')])" "buildUrl []"] o
  have d: \<open>workoutList (snd (loadWorkouts hostUTC
      (serves 200 (Json (JObj [(''detail'', JStr ''x'')]))) samplePage)) =
     Some ''<p class="error">Error loading workouts. Please try again.</p>''\<close>
    by blast
  have "body \<lparr>status = 502, body = NotJson\<rparr> = NotJson"
    by simp
  with inst [where net = "serves 502 NotJson"] serves_resolves [of 502 NotJson "buildUrl []"]
  have j: \<open>workoutList (snd (loadWorkouts hostUTC (serves 502 NotJson) samplePage)) =
     Some ''<p class="error">Error loading workouts. Please try again.</p>''\<close>
    by blast
  have "offline (buildUrl []) = Rejects"
    by (simp add: offline_def)
  with inst [where net = offline]
  have r: \<open>workoutList (snd (loadWorkouts hostUTC offline samplePage)) =
     Some ''<p class="error">Error loading workouts. Please try again.</p>''\<close>
    by blast
  from a e c d j r show ?thesis
    by blast
qed

text \<open>
  C10. For a list of Workout records, the markup written to the display region contains,
  for every exercise of every workout, the exercise tag with the name and the texts of
  \<open>num_sets\<close>, \<open>max_weight\<close> and \<open>total_reps\<close> between the fixed parts of the template,
  and the text of \<open>num_exercises\<close> in the stats line, each character for character:
  nothing is escaped, so markup inside a name is markup in the region.
\<close>

theorem loadWorkouts_fields_verbatim:
  assumes "userFilter pg = Some v" and "workoutList pg = Some old"
      and "net (buildUrl v) = Resolves resp" and "body resp = Json (JArr ws)"
      and "list_all isWorkout ws" and "w \<in> set ws"
      and "getProp w ''exercises'' = Some (JArr exs)" and "ex \<in> set exs"
  shows "\<exists>html name v2 sets v3 weight v4 reps v5 count.
           workoutList (snd (loadWorkouts pf net pg)) = Some html \<and>
           getProp ex ''name'' = Some (JStr name) \<and>
           getProp ex ''num_sets'' = Some v2 \<and> toStringJS pf v2 = Some sets \<and>
           getProp ex ''max_weight'' = Some v3 \<and> toStringJS pf v3 = Some weight \<and>
           getProp ex ''total_reps'' = Some v4 \<and> toStringJS pf v4 = Some reps \<and>
           getProp w ''num_exercises'' = Some v5 \<and> toStringJS pf v5 = Some count \<and>
           sublist (tagOpen @ name @ tagAfterName @ sets @ tagAfterSets @ weight @
                    tagAfterWeight @ reps @ tagClose) html \<and>
           sublist (cardAfterDate @ count @ cardAfterCount) html"
proof -
  from assms(5) obtain cards where c: "map (renderWorkout pf) ws = map Some cards"
    and j: "mapJoin (renderWorkout pf) (JArr ws) = Some (concat cards)"
    using renderAll_workouts by blast
  have z: "lengthIsZero (JArr ws) = Some False"
    using assms(6) by (auto simp: lengthIsZero_def)
  have html: "workoutList (snd (loadWorkouts pf net pg)) = Some (concat cards)"
    by (simp add: loadWorkouts_populated [where net = net, OF assms(1-4) z j] workoutList_ended)
  have "isWorkout w"
    using assms(5,6) by (simp add: list_all_iff)
  from workout_card_parts [OF this assms(7,8), of pf]
  obtain markup name sets weight reps count where r: "renderWorkout pf w = Some markup"
    and f: "getProp ex ''name'' = Some (JStr name)" "getProp ex ''num_sets'' = Some (JNum sets)"
      "getProp ex ''max_weight'' = Some (JNum weight)"
      "getProp ex ''total_reps'' = Some (JNum reps)"
      "getProp w ''num_exercises'' = Some (JNum count)"
    and s1: "sublist (tagOpen @ name @ tagAfterName @ numberToString pf sets @ tagAfterSets @
               numberToString pf weight @ tagAfterWeight @ numberToString pf reps @
               tagClose) markup"
    and s2: "sublist (cardAfterDate @ numberToString pf count @ cardAfterCount) markup"
    by blast
  from map_Some_member [OF c assms(6)] r have "markup \<in> set cards"
    by auto
  then have in_html: "sublist markup (concat cards)"
    by (rule sublist_concat_member)
  have "sublist (tagOpen @ name @ tagAfterName @ numberToString pf sets @ tagAfterSets @
               numberToString pf weight @ tagAfterWeight @ numberToString pf reps @
               tagClose) (concat cards)"
    using s1 in_html by (rule sublist_trans)
  moreover have "sublist (cardAfterDate @ numberToString pf count @ cardAfterCount) (concat cards)"
    using s2 in_html by (rule sublist_trans)
  ultimately show ?thesis
    using html f by simp
qed

theorem loadWorkouts_fields_verbatim_witness:
  "\<exists>html. workoutList (snd (loadWorkouts hostUTC (serves 200 (Json (JArr [sampleWorkout, rowingDay])))
       samplePage)) = Some html \<and>
     sublist (tagOpen @ ''<b>Row</b>'' @ tagAfterName @ ''4'' @ tagAfterSets @ ''150.5'' @
              tagAfterWeight @ ''32'' @ tagClose) html \<and>
     sublist (cardAfterDate @ ''1'' @ cardAfterCount) html"
proof -
  have 1: "userFilter samplePage = Some []" and 2: "workoutList samplePage = Some []"
    by (simp_all add: samplePage_def)
  have 3: "serves 200 (Json (JArr [sampleWorkout, rowingDay])) (buildUrl []) =
             Resolves \<lparr>status = 200, body = Json (JArr [sampleWorkout, rowingDay])\<rparr>"
    by (simp add: serves_def)
  have 4: "body \<lparr>status = 200, body = Json (JArr [sampleWorkout, rowingDay])\<rparr> =
             Json (JArr [sampleWorkout, rowingDay])"
    by simp
  have 5: "list_all isWorkout [sampleWorkout, rowingDay]"
    by code_simp
  have 6: "rowingDay \<in> set [sampleWorkout, rowingDay]" and 8: "row \<in> set [row]"
    by simp_all
  have 7: "getProp rowingDay ''exercises'' = Some (JArr [row])"
    by (simp add: rowingDay_def getProp_def ownProp_def)
  have f: "getProp row ''name'' = Some (JStr ''<b>Row</b>'')"
    "getProp row ''num_sets'' = Some (JNum (Finite 4))"
    "getProp row ''max_weight'' = Some (JNum (Finite (301 / 2)))"
    "getProp row ''total_reps'' = Some (JNum (Finite 32))"
    "getProp rowingDay ''num_exercises'' = Some (JNum (Finite 1))"
    by (simp_all add: row_def rowingDay_def getProp_def ownProp_def)
  have t: "numberToString hostUTC (Finite 4) = ''4''"
    "numberToString hostUTC (Finite (301 / 2)) = ''150.5''"
    "numberToString hostUTC (Finite 32) = ''32''"
    "numberToString hostUTC (Finite 1) = ''1''"
    by code_simp+
  from loadWorkouts_fields_verbatim
    [where net = "serves 200 (Json (JArr [sampleWorkout, rowingDay]))" and pf = hostUTC,
      OF 1 2 3 4 5 6 7 8]
  show ?thesis
    by (auto simp: f t)
qed

end
